theory Spec2Isabelle
  imports Complex_Main
begin

section \<open>Configuration and errors\<close>

text \<open>
  The class \<open>Params\<close> of \<open>params/params.py\<close> is a bag of class attributes, read and written
  as \<open>hp.name\<close> from everywhere. The record lists the attributes the functions below
  read or write; \<open>other_attributes\<close> stands for all the others.
\<close>

record 'o Params =
  sample_rate :: int
  num_fft :: nat
  num_mels :: nat
  languages :: "string list"
  predict_linear :: bool
  multi_speaker :: bool
  multi_language :: bool
  cache_spectrograms :: bool
  normalize_spectrogram :: bool
  use_punctuation :: bool
  case_sensitive :: bool
  remove_multiple_wspaces :: bool
  use_phonemes :: bool
  stop_frames :: int
  max_output_length :: nat
  encoder_disabled :: bool
  encoder_dimension :: nat
  residual_encoder :: bool
  other_attributes :: 'o

text \<open>The Python exceptions of the modelled code.\<close>

datatype exn = IndexError | RuntimeError | TypeError | ValueError | KeyError | AssertionError | OSError

section \<open>The decoder of \<open>modules/tacotron2.py\<close>\<close>

text \<open>
  The neural modules of the decoder compute on floating-point tensors and draw dropout
  masks at random; they are parameters of the model. \<open>'v\<close> is the type of tensors, \<open>'s\<close>
  the recurrent state carried from one step to the next (the context vector, the hidden
  and cell states of both LSTM cells, the attention's accumulator, the conditioned encoder
  output and its mask). The step index given to \<open>prenet\<close> and \<open>recurrent_step\<close> stands for
  the random draws of that step.

  \<^item> \<open>max_frames_limit\<close> is \<open>self._max_frames\<close>;
  \<^item> \<open>speaker_embedding\<close> and \<open>language_embedding\<close> are \<open>_add_conditional_embedding\<close> with
    the respective layer;
  \<^item> \<open>start_state\<close> is \<open>self._attention.reset\<close> together with \<open>_decoder_init\<close>;
  \<^item> \<open>recurrent_step\<close> is lines 186 to 195 of \<open>_decode\<close>: it returns the new state, the
    frame, the attention weights and the stop logits;
  \<^item> \<open>stop_predicted\<close> is the truth value Python takes of
    \<open>torch.sigmoid(stop_logits).ge(0.5)\<close>; it is \<open>None\<close> where that tensor has no single
    truth value (a batch of more than one example) and \<open>bool()\<close> raises;
  \<^item> \<open>target_size2\<close> is \<open>target.size(2)\<close>, and \<open>target_init t i\<close> is
    \<open>_target_init(t, batch_size)[:, i]\<close>.
\<close>

record ('v, 's) decoder_modules =
  max_frames_limit :: nat
  prenet :: "nat \<Rightarrow> 'v \<Rightarrow> 'v"
  speaker_embedding :: "'v \<Rightarrow> 'v option \<Rightarrow> 'v"
  language_embedding :: "'v \<Rightarrow> 'v option \<Rightarrow> 'v"
  start_state :: "'v \<Rightarrow> 'v \<Rightarrow> 's"
  recurrent_step :: "nat \<Rightarrow> 's \<Rightarrow> 'v \<Rightarrow> 's \<times> 'v \<times> 'v \<times> 'v"
  stop_predicted :: "'v \<Rightarrow> bool option"
  target_size2 :: "'v \<Rightarrow> nat"
  target_init :: "'v \<Rightarrow> nat \<Rightarrow> 'v"

text \<open>The local variables of the decoding loop that change from step to step.\<close>

record ('v, 's) loop_vars =
  frame :: 'v
  rnn :: 's
  stop_frames_left :: int
  spectrogram :: "'v list"
  alignments :: "'v list"
  stop_logit_store :: "'v list"

text \<open>
  The three tensors \<open>_decode\<close> returns, each as the list of its slices along the step
  dimension (\<open>spectrogram[:, i]\<close> and so on).
\<close>

record 'v decoded =
  dec_spectrogram :: "'v list"
  dec_stop_tokens :: "'v list"
  dec_alignments :: "'v list"

text \<open>
  The \<open>for i in range(max_frames)\<close> loop, on the list of the indices still to visit. The
  empty list is the fall-through to the final \<open>return\<close> of the full tensors.
\<close>

fun decode_loop ::
  "('v, 's) decoder_modules \<Rightarrow> int \<Rightarrow> bool \<Rightarrow> (nat \<Rightarrow> bool) \<Rightarrow> (nat \<Rightarrow> 'v) \<Rightarrow>
   nat list \<Rightarrow> ('v, 's) loop_vars \<Rightarrow> exn + 'v decoded" where
  "decode_loop D hp_stop_frames inference teacher target [] st =
     Inr \<lparr>dec_spectrogram = spectrogram st, dec_stop_tokens = stop_logit_store st,
          dec_alignments = alignments st\<rparr>"
| "decode_loop D hp_stop_frames inference teacher target (i # rest) st =
     (let prev_frame = (if inference \<or> \<not> teacher i then prenet D i (frame st) else target i);
          (rnn', frame', weights, stop_logits) = recurrent_step D i (rnn st) prev_frame;
          st1 = st\<lparr>frame := frame', rnn := rnn',
                   spectrogram := (spectrogram st)[i := frame'],
                   alignments := (alignments st)[i := weights],
                   stop_logit_store := (stop_logit_store st)[i := stop_logits]\<rparr>
      in if \<not> inference then decode_loop D hp_stop_frames inference teacher target rest st1
         else (case stop_predicted D stop_logits of
                 None \<Rightarrow> Inl RuntimeError
               | Some False \<Rightarrow> decode_loop D hp_stop_frames inference teacher target rest st1
               | Some True \<Rightarrow>
                   if stop_frames_left st1 = - 1
                   then decode_loop D hp_stop_frames inference teacher target rest
                          (st1\<lparr>stop_frames_left := hp_stop_frames\<rparr>)
                   else (let st2 = st1\<lparr>stop_frames_left := stop_frames_left st1 - 1\<rparr>
                         in if stop_frames_left st2 = 0
                            then Inr \<lparr>dec_spectrogram = take (i + 1) (spectrogram st2),
                                      dec_stop_tokens = take (i + 1) (stop_logit_store st2),
                                      dec_alignments = take (i + 1) (alignments st2)\<rparr>
                            else decode_loop D hp_stop_frames inference teacher target rest st2)))"

text \<open>
  \<open>Decoder._decode\<close>. \<open>rand\<close> is the vector drawn by \<open>torch.rand([max_frames])\<close>; the
  target is \<open>None\<close> for inference.
\<close>

definition decode ::
  "('v::zero, 's) decoder_modules \<Rightarrow> 'o Params \<Rightarrow> 'v \<Rightarrow> 'v \<Rightarrow> 'v option \<Rightarrow> real \<Rightarrow>
   (nat \<Rightarrow> real) \<Rightarrow> 'v option \<Rightarrow> 'v option \<Rightarrow> exn + 'v decoded" where
  "decode D hp encoded_input input_mask target teacher_forcing_ratio rand speaker language =
     (let inference = (target = None);
          max_frames = (case target of None \<Rightarrow> max_frames_limit D | Some t \<Rightarrow> target_size2 D t);
          encoded1 = (if multi_speaker hp then speaker_embedding D encoded_input speaker
                      else encoded_input);
          encoded2 = (if multi_language hp then language_embedding D encoded1 language
                      else encoded1);
          s0 = start_state D encoded2 input_mask;
          target' = (case target of None \<Rightarrow> (\<lambda>i. 0) | Some t \<Rightarrow> target_init D t);
          teacher = (\<lambda>i. rand i > 1 - teacher_forcing_ratio)
      in decode_loop D (stop_frames hp) inference teacher target' [0..<max_frames]
           \<lparr>frame = 0, rnn = s0, stop_frames_left = - 1,
            spectrogram = replicate max_frames 0,
            alignments = replicate max_frames 0,
            stop_logit_store = replicate max_frames 0\<rparr>)"

text \<open>\<open>Decoder.forward\<close> and \<open>Decoder.inference\<close>; \<open>lengths_to_mask\<close> is a parameter.\<close>

definition decoder_forward ::
  "('v::zero, 's) decoder_modules \<Rightarrow> 'o Params \<Rightarrow> ('v \<Rightarrow> 'v) \<Rightarrow> 'v \<Rightarrow> 'v \<Rightarrow> 'v option \<Rightarrow>
   real \<Rightarrow> (nat \<Rightarrow> real) \<Rightarrow> 'v option \<Rightarrow> 'v option \<Rightarrow> exn + 'v decoded" where
  "decoder_forward D hp lengths_to_mask encoded_input encoded_lenghts target
     teacher_forcing_ratio rand speaker language =
     decode D hp encoded_input (lengths_to_mask encoded_lenghts) target
       teacher_forcing_ratio rand speaker language"

definition decoder_inference ::
  "('v::zero, 's) decoder_modules \<Rightarrow> 'o Params \<Rightarrow> ('v \<Rightarrow> 'v) \<Rightarrow> 'v \<Rightarrow>
   'v option \<Rightarrow> 'v option \<Rightarrow> exn + 'v list" where
  "decoder_inference D hp lengths_to_mask encoded_input speaker language =
     (case decode D hp encoded_input (lengths_to_mask encoded_input) None 0 (\<lambda>i. 0) speaker language of
        Inl e \<Rightarrow> Inl e
      | Inr out \<Rightarrow> Inr (dec_spectrogram out))"

text \<open>
  The state the loop of \<open>_decode\<close> starts from: \<open>start_state\<close> of the encoded input with the
  speaker and language embeddings that the configuration asks for.
\<close>

definition decode_start ::
  "('v, 's) decoder_modules \<Rightarrow> 'o Params \<Rightarrow> 'v \<Rightarrow> 'v \<Rightarrow> 'v option \<Rightarrow> 'v option \<Rightarrow> 's" where
  "decode_start D hp encoded_input input_mask speaker language =
     start_state D
       (if multi_language hp
        then language_embedding D
               (if multi_speaker hp then speaker_embedding D encoded_input speaker
                else encoded_input) language
        else (if multi_speaker hp then speaker_embedding D encoded_input speaker
              else encoded_input))
       input_mask"

text \<open>
  What \<open>k\<close> steps of the recurrence compute under teacher forcing, from the state \<open>s0\<close> and
  the zero frame: the state after step \<open>k - 1\<close> with its frame, attention weights and stop
  logits. It is the yardstick for the tensors a training run returns.
\<close>

primrec training_steps ::
  "('v::zero, 's) decoder_modules \<Rightarrow> (nat \<Rightarrow> bool) \<Rightarrow> (nat \<Rightarrow> 'v) \<Rightarrow> 's \<Rightarrow> nat \<Rightarrow>
   's \<times> 'v \<times> 'v \<times> 'v" where
  "training_steps D teacher target s0 0 = (s0, 0, 0, 0)"
| "training_steps D teacher target s0 (Suc k) =
     (case training_steps D teacher target s0 k of (s, f, w, l) \<Rightarrow>
        recurrent_step D k s (if \<not> teacher k then prenet D k f else target k))"

definition step_frame :: "'s \<times> 'v \<times> 'v \<times> 'v \<Rightarrow> 'v" where
  "step_frame r = (case r of (s, f, w, l) \<Rightarrow> f)"

definition step_weights :: "'s \<times> 'v \<times> 'v \<times> 'v \<Rightarrow> 'v" where
  "step_weights r = (case r of (s, f, w, l) \<Rightarrow> w)"

definition step_logits :: "'s \<times> 'v \<times> 'v \<times> 'v \<Rightarrow> 'v" where
  "step_logits r = (case r of (s, f, w, l) \<Rightarrow> l)"

text \<open>
  How many of the stop logits in a list the loop takes as a stop prediction.
\<close>

definition stop_count :: "('v, 's) decoder_modules \<Rightarrow> 'v list \<Rightarrow> nat" where
  "stop_count D ls = length (filter (\<lambda>l. stop_predicted D l = Some True) ls)"

text \<open>
  The loop invariant of the countdown before step \<open>k\<close>: either no stop has been predicted
  yet and the counter is still \<open>-1\<close>, or the counter is the configured number of frames
  less the stop predictions that followed the first one.
\<close>

definition countdown_inv :: "('v, 's) decoder_modules \<Rightarrow> int \<Rightarrow> nat \<Rightarrow> ('v, 's) loop_vars \<Rightarrow> bool" where
  "countdown_inv D S k st \<longleftrightarrow>
     (stop_frames_left st = - 1 \<and> stop_count D (take k (stop_logit_store st)) = 0)
     \<or> (1 \<le> stop_frames_left st \<and> stop_frames_left st \<le> S
         \<and> int (stop_count D (take k (stop_logit_store st))) = S - stop_frames_left st + 1)"

text \<open>
  What an inference run returns, read off the returned stop logits: the three tensors have
  the same number of steps, at most \<open>M\<close>; at most \<open>S + 1\<close> steps predict a stop; when
  \<open>S + 1\<close> do, the last step is one of them; and a run shorter than \<open>M\<close> has \<open>S + 1\<close> of them.
\<close>

definition stopped_as_counted :: "('v, 's) decoder_modules \<Rightarrow> int \<Rightarrow> nat \<Rightarrow> 'v decoded \<Rightarrow> bool" where
  "stopped_as_counted D S M out \<longleftrightarrow>
     length (dec_stop_tokens out) = length (dec_spectrogram out)
     \<and> length (dec_alignments out) = length (dec_spectrogram out)
     \<and> length (dec_spectrogram out) \<le> M
     \<and> int (stop_count D (dec_stop_tokens out)) \<le> S + 1
     \<and> (int (stop_count D (dec_stop_tokens out)) = S + 1 \<longrightarrow>
          dec_stop_tokens out \<noteq> [] \<and> stop_predicted D (last (dec_stop_tokens out)) = Some True)
     \<and> (length (dec_spectrogram out) < M \<longrightarrow> int (stop_count D (dec_stop_tokens out)) = S + 1)"

section \<open>The dataset of \<open>dataset/dataset.py\<close>\<close>

subsection \<open>Python lists, strings and exceptions\<close>

text \<open>Sequencing of computations that may raise: the first exception ends the run.\<close>

definition exn_bind :: "exn + 'a \<Rightarrow> ('a \<Rightarrow> exn + 'b) \<Rightarrow> exn + 'b" where
  "exn_bind m f = (case m of Inl e \<Rightarrow> Inl e | Inr x \<Rightarrow> f x)"

fun exn_map :: "('a \<Rightarrow> exn + 'b) \<Rightarrow> 'a list \<Rightarrow> exn + 'b list" where
  "exn_map f [] = Inr []"
| "exn_map f (x # xs) =
     exn_bind (f x) (\<lambda>y. exn_bind (exn_map f xs) (\<lambda>ys. Inr (y # ys)))"

text \<open>\<open>xs[i]\<close> for a non-negative index, \<open>xs.index(x)\<close> and \<open>s.split(c)\<close>.\<close>

definition py_index :: "'a list \<Rightarrow> nat \<Rightarrow> exn + 'a" where
  "py_index xs i = (if i < length xs then Inr (xs ! i) else Inl IndexError)"

fun list_index :: "'a list \<Rightarrow> 'a \<Rightarrow> exn + nat" where
  "list_index [] x = Inl ValueError"
| "list_index (y # ys) x =
     (if y = x then Inr 0 else exn_bind (list_index ys x) (\<lambda>n. Inr (Suc n)))"

fun split_on :: "char \<Rightarrow> string \<Rightarrow> string list" where
  "split_on c [] = [[]]"
| "split_on c (x # xs) =
     (let r = split_on c xs in if x = c then [] # r else (x # hd r) # tl r)"

subsection \<open>\<open>TextToSpeechDataset.__init__\<close>\<close>

text \<open>
  An item is the dictionary built from one line of the meta-file. Its speaker and language
  are names first and indices after the conversion; its text and phonemes are strings
  first and sequences of symbol ids after.
\<close>

record ('s, 't) item =
  item_id :: string
  item_speaker :: 's
  item_language :: 's
  item_audio :: string
  item_spectrogram :: string
  item_linear_spectrogram :: string
  item_text :: 't
  item_phonemes :: 't

text \<open>
  Lines 77 to 87: \<open>line[:-1]\<close> drops the last character of the line, the tokens are
  indexed one after the other, and the first index out of range raises.
\<close>

definition parse_line :: "string \<Rightarrow> exn + (string, string) item" where
  "parse_line line =
     (let line_tokens = split_on CHR ''|'' (butlast line) in
      exn_bind (py_index line_tokens 0) (\<lambda>t0.
      exn_bind (py_index line_tokens 1) (\<lambda>t1.
      exn_bind (py_index line_tokens 2) (\<lambda>t2.
      exn_bind (py_index line_tokens 3) (\<lambda>t3.
      exn_bind (py_index line_tokens 4) (\<lambda>t4.
      exn_bind (py_index line_tokens 5) (\<lambda>t5.
      exn_bind (py_index line_tokens 6) (\<lambda>t6.
      exn_bind (py_index line_tokens 7) (\<lambda>t7.
        Inr \<lparr>item_id = t0, item_speaker = t1, item_language = t2, item_audio = t3,
             item_spectrogram = t4, item_linear_spectrogram = t5, item_text = t6,
             item_phonemes = t7\<rparr>)))))))))"

text \<open>
  The loop over the lines of the meta-file. \<open>unique_speakers\<close> is a Python set; the model
  keeps the names in the order of the calls of \<open>add\<close>, repetitions included.
\<close>

fun read_meta ::
  "string list \<Rightarrow> string list \<Rightarrow> string list \<Rightarrow> (string, string) item list \<Rightarrow>
   exn + string list \<times> (string, string) item list" where
  "read_meta langs [] unique_speakers items = Inr (unique_speakers, items)"
| "read_meta langs (line # rest) unique_speakers items =
     exn_bind (parse_line line) (\<lambda>item.
       if item_language item \<in> set langs
       then read_meta langs rest (unique_speakers @ [item_speaker item]) (items @ [item])
       else read_meta langs rest unique_speakers items)"

text \<open>The functions of \<open>utils/text.py\<close> that \<open>__init__\<close> calls are parameters.\<close>

record 'o text_utils =
  remove_punctuation :: "string \<Rightarrow> string"
  to_lower :: "string \<Rightarrow> string"
  remove_odd_whitespaces :: "string \<Rightarrow> string"
  to_sequence :: "'o Params \<Rightarrow> string \<Rightarrow> bool \<Rightarrow> int list"

definition clean_item :: "'o text_utils \<Rightarrow> 'o Params \<Rightarrow> ('s, string) item \<Rightarrow> ('s, string) item" where
  "clean_item T hp item =
     (let item_text0 = item_text item;
          item_phon0 = item_phonemes item;
          item_text1 = (if \<not> use_punctuation hp then remove_punctuation T item_text0
                        else item_text0);
          item_phon1 = (if \<not> use_punctuation hp then remove_punctuation T item_phon0
                        else item_phon0);
          item_text2 = (if \<not> case_sensitive hp then to_lower T item_text1 else item_text1);
          item_text3 = (if remove_multiple_wspaces hp then remove_odd_whitespaces T item_text2
                        else item_text2);
          item_phon3 = (if remove_multiple_wspaces hp then remove_odd_whitespaces T item_phon1
                        else item_phon1)
      in item\<lparr>item_text := item_text3, item_phonemes := item_phon3\<rparr>)"

definition convert_item ::
  "'o text_utils \<Rightarrow> 'o Params \<Rightarrow> string list \<Rightarrow> (string, string) item \<Rightarrow>
   exn + (nat, int list) item" where
  "convert_item T hp unique_speakers item =
     exn_bind (list_index unique_speakers (item_speaker item)) (\<lambda>speaker_id.
     exn_bind (list_index (languages hp) (item_language item)) (\<lambda>language_id.
       Inr \<lparr>item_id = item_id item, item_speaker = speaker_id, item_language = language_id,
            item_audio = item_audio item, item_spectrogram = item_spectrogram item,
            item_linear_spectrogram = item_linear_spectrogram item,
            item_text = to_sequence T hp (item_text item) False,
            item_phonemes = to_sequence T hp (item_phonemes item) True\<rparr>))"

text \<open>
  \<open>__init__\<close>, on the lines the meta-file yields when iterated. \<open>list_of_set\<close> is
  \<open>list(unique_speakers)\<close>: it gives the order in which Python iterates the set, from the
  names added. That order follows the hash values of the strings, which CPython salts anew
  in every process, so it is a parameter; \<open>set_listing\<close> is all that is known of it.
\<close>

definition set_listing :: "'a list \<Rightarrow> 'a list \<Rightarrow> bool" where
  "set_listing added listed \<longleftrightarrow> distinct listed \<and> set listed = set added"

definition dataset_init ::
  "'o text_utils \<Rightarrow> (string list \<Rightarrow> string list) \<Rightarrow> 'o Params \<Rightarrow> string list \<Rightarrow>
   exn + (nat, int list) item list" where
  "dataset_init T list_of_set hp meta_lines =
     exn_bind (read_meta (languages hp) meta_lines [] []) (\<lambda>(added, items).
       let unique_speakers = list_of_set added;
           cleaned = map (clean_item T hp) items
       in exn_map (convert_item T hp unique_speakers) cleaned)"

subsection \<open>\<open>TextToSpeechDataset.load_spectrogram\<close>\<close>

text \<open>
  The file system, \<open>numpy\<close>, \<open>utils/audio.py\<close>, \<open>utils/text.py\<close> and \<open>dataset/loaders.py\<close>
  are parameters. A spectrogram is a two-dimensional array, the list of its rows; \<open>'a\<close> is
  the type of its entries, \<open>'w\<close> the type of loaded audio, \<open>'d\<close> the type of a phoneme
  dictionary. The functions that read the global \<open>hp\<close> take it as an argument.
\<close>

record ('a, 'w, 'd, 'o) externals =
  path_join :: "string \<Rightarrow> string \<Rightarrow> string"
  path_exists :: "string \<Rightarrow> bool"
  np_load :: "string \<Rightarrow> exn + 'a list list"
  audio_load :: "'o Params \<Rightarrow> string \<Rightarrow> exn + 'w"
  audio_spectrogram :: "'o Params \<Rightarrow> 'w \<Rightarrow> bool \<Rightarrow> exn + 'a list list"
  audio_normalize_spectrogram :: "'o Params \<Rightarrow> 'a list list \<Rightarrow> bool \<Rightarrow> 'a list list"
  get_loader :: "'o Params \<Rightarrow> string \<Rightarrow> string \<Rightarrow> exn + (string \<times> string \<times> string \<times> string) list"
  build_phoneme_dicts :: "'o Params \<Rightarrow> (string \<times> string) list \<Rightarrow> exn + (string \<rightharpoonup> 'd)"
  to_phoneme :: "'o Params \<Rightarrow> string \<Rightarrow> bool \<Rightarrow> string \<Rightarrow> 'd \<Rightarrow> exn + string"
  os_makedirs :: "string \<Rightarrow> exn + unit"
  open_write :: "string \<Rightarrow> exn + unit"
  np_save :: "string \<Rightarrow> 'a list list \<Rightarrow> exn + unit"
  print_to :: "string \<Rightarrow> string \<Rightarrow> exn + unit"

text \<open>\<open>np.shape(x)\<close> of a two-dimensional array given as the list of its rows.\<close>

definition np_shape :: "'a list list \<Rightarrow> nat list" where
  "np_shape x = [length x, (case x of [] \<Rightarrow> 0 | row # _ \<Rightarrow> length row)]"

text \<open>Lines 126 to 132: the array is read from the cache or computed from the audio.\<close>

definition obtain_spectrogram ::
  "('a, 'w, 'd, 'o) externals \<Rightarrow> 'o Params \<Rightarrow> string \<Rightarrow> string \<Rightarrow> string \<Rightarrow> bool \<Rightarrow>
   exn + 'a list list" where
  "obtain_spectrogram X hp root_dir audio_path spectrogram_path is_mel =
     (if cache_spectrograms hp
      then np_load X (path_join X root_dir spectrogram_path)
      else exn_bind (audio_load X hp (path_join X root_dir audio_path))
             (\<lambda>audio_data. audio_spectrogram X hp audio_data is_mel))"

definition load_spectrogram ::
  "('a, 'w, 'd, 'o) externals \<Rightarrow> 'o Params \<Rightarrow> string \<Rightarrow> string \<Rightarrow> string \<Rightarrow> bool \<Rightarrow> bool \<Rightarrow>
   exn + 'a list list" where
  "load_spectrogram X hp root_dir audio_path spectrogram_path normalize_flag is_mel =
     exn_bind (obtain_spectrogram X hp root_dir audio_path spectrogram_path is_mel)
       (\<lambda>spectrogram.
          let expected_dimension = (if is_mel then num_mels hp else num_fft hp div 2 + 1) in
          if np_shape spectrogram ! 0 \<noteq> expected_dimension then Inl AssertionError
          else Inr (if normalize_flag then audio_normalize_spectrogram X hp spectrogram is_mel
                    else spectrogram))"

subsection \<open>\<open>TextToSpeechDataset.create_meta_file\<close>\<close>

text \<open>\<open>str(i).zfill(6)\<close>: the decimal digits of \<open>i\<close>, padded with zeros on the left.\<close>

definition digit_char :: "nat \<Rightarrow> char" where
  "digit_char d = char_of (48 + d)"

fun str_nat :: "nat \<Rightarrow> string" where
  "str_nat n = (if n < 10 then [digit_char n] else str_nat (n div 10) @ [digit_char (n mod 10)])"

definition zfill :: "nat \<Rightarrow> string \<Rightarrow> string" where
  "zfill width s = replicate (width - length s) CHR ''0'' @ s"

text \<open>
  What a completed call leaves on disk: the directories made, the arrays saved and the lines
  printed to the meta-file. The progress log is left out.
\<close>

record 'a meta_files =
  made_dirs :: "string list"
  metafile_path :: string
  saved_arrays :: "(string \<times> 'a list list) list"
  metafile_lines :: "string list"

text \<open>Lines 200 to 201: each of the directories that does not exist is made, in order.\<close>

fun make_dirs :: "('a, 'w, 'd, 'o) externals \<Rightarrow> string list \<Rightarrow> string list \<Rightarrow> exn + string list" where
  "make_dirs X [] made = Inr made"
| "make_dirs X (x # dirs) made =
     (if \<not> path_exists X x
      then exn_bind (os_makedirs X x) (\<lambda>_. make_dirs X dirs (made @ [x]))
      else make_dirs X dirs made)"

text \<open>
  Lines 206 to 218, the loop over the items of the loader, \<open>i\<close> counting them. Each array is
  saved as soon as it is computed, and the line is printed to the file opened at
  \<open>metafile_path\<close>; loading, computing, saving and printing may each raise.
\<close>

fun meta_loop ::
  "('a, 'w, 'd, 'o) externals \<Rightarrow> 'o Params \<Rightarrow> string \<Rightarrow> bool \<Rightarrow> bool \<Rightarrow> (string \<rightharpoonup> 'd) \<Rightarrow>
   nat \<Rightarrow> (string \<times> string \<times> string \<times> string) list \<Rightarrow> 'a meta_files \<Rightarrow> exn + 'a meta_files" where
  "meta_loop X hp dataset_root_dir spectrograms phonemes phoneme_dicts i [] files = Inr files"
| "meta_loop X hp dataset_root_dir spectrograms phonemes phoneme_dicts i
     ((raw_text, audio_path, speaker, language0) # rest) files =
     exn_bind (if language0 = [] then py_index (languages hp) 0 else Inr language0) (\<lambda>language.
     exn_bind (if phonemes
               then (case phoneme_dicts language of
                       None \<Rightarrow> Inl KeyError
                     | Some d \<Rightarrow> to_phoneme X hp raw_text False language d)
               else Inr []) (\<lambda>phonemized_text.
     exn_bind (if spectrograms
               then (let spec_name = zfill 6 (str_nat i) @ ''.npy'';
                         mel_path = path_join X (path_join X dataset_root_dir ''spectrograms'')
                                      spec_name;
                         lin_path = path_join X
                                      (path_join X dataset_root_dir ''linear_spectrograms'')
                                      spec_name in
                     exn_bind (audio_load X hp (path_join X dataset_root_dir audio_path))
                       (\<lambda>audio_data.
                     exn_bind (audio_spectrogram X hp audio_data True) (\<lambda>mel.
                     exn_bind (np_save X mel_path mel) (\<lambda>_.
                     exn_bind (audio_spectrogram X hp audio_data False) (\<lambda>lin.
                     exn_bind (np_save X lin_path lin) (\<lambda>_.
                       Inr (path_join X ''spectrograms'' spec_name @ ''|''
                              @ path_join X ''linear_spectrograms'' spec_name,
                            [(mel_path, mel), (lin_path, lin)])))))))
               else Inr (''|'', [])) (\<lambda>(spectrogram_paths, saves).
       let line = zfill 6 (str_nat i) @ ''|'' @ speaker @ ''|'' @ language @ ''|'' @ audio_path
                   @ ''|'' @ spectrogram_paths @ ''|'' @ raw_text @ ''|'' @ phonemized_text in
       exn_bind (print_to X (metafile_path files) line) (\<lambda>_.
       meta_loop X hp dataset_root_dir spectrograms phonemes phoneme_dicts (Suc i) rest
         (files\<lparr>saved_arrays := saved_arrays files @ saves,
                metafile_lines := metafile_lines files @ [line]\<rparr>)))))"

text \<open>
  Lines 187 to 218: everything between the overwriting and the restoring of \<open>hp\<close>. Making a
  directory and opening the meta-file for writing may raise as well.
\<close>

definition build_meta ::
  "('a, 'w, 'd, 'o) externals \<Rightarrow> 'o Params \<Rightarrow> string \<Rightarrow> string \<Rightarrow> string \<Rightarrow> bool \<Rightarrow> bool \<Rightarrow>
   exn + 'a meta_files" where
  "build_meta X hp dataset_name dataset_root_dir output_metafile_name spectrograms phonemes =
     exn_bind (get_loader X hp dataset_name dataset_root_dir) (\<lambda>items.
     exn_bind (if phonemes
               then exn_bind
                      (exn_map (\<lambda>(t, a, s, l).
                           if l = [] then exn_bind (py_index (languages hp) 0) (\<lambda>l0. Inr (t, l0))
                           else Inr (t, l)) items)
                      (build_phoneme_dicts X hp)
               else Inr Map.empty) (\<lambda>phoneme_dicts.
     exn_bind (if spectrograms
               then make_dirs X [path_join X dataset_root_dir ''spectrograms'',
                                 path_join X dataset_root_dir ''linear_spectrograms''] []
               else Inr []) (\<lambda>made.
       let metafile_path = path_join X dataset_root_dir output_metafile_name in
       exn_bind (open_write X metafile_path) (\<lambda>_.
         meta_loop X hp dataset_root_dir spectrograms phonemes phoneme_dicts 0 items
           \<lparr>made_dirs = made, metafile_path = metafile_path,
            saved_arrays = [], metafile_lines = []\<rparr>))))"

text \<open>
  \<open>create_meta_file\<close> assigns to the global \<open>hp\<close>, so the model takes \<open>hp\<close> and returns it
  with the result. There is no \<open>try\<close> around the body: an exception leaves the function
  before the two restoring assignments of lines 221 and 222.
\<close>

definition create_meta_file ::
  "('a, 'w, 'd, 'o) externals \<Rightarrow> 'o Params \<Rightarrow> string \<Rightarrow> string \<Rightarrow> string \<Rightarrow> int \<Rightarrow> nat \<Rightarrow>
   bool \<Rightarrow> bool \<Rightarrow> 'o Params \<times> (exn + 'a meta_files)" where
  "create_meta_file X hp dataset_name dataset_root_dir output_metafile_name audio_sample_rate
     num_fft_freqs spectrograms phonemes =
     (let old_sample_rate = sample_rate hp;
          hp1 = hp\<lparr>sample_rate := audio_sample_rate\<rparr>;
          old_fft_freqs = num_fft hp1;
          hp2 = hp1\<lparr>num_fft := num_fft_freqs\<rparr>
      in case build_meta X hp2 dataset_name dataset_root_dir output_metafile_name
                spectrograms phonemes of
           Inl e \<Rightarrow> (hp2, Inl e)
         | Inr files \<Rightarrow>
             (let hp3 = hp2\<lparr>sample_rate := old_sample_rate\<rparr>;
                  hp4 = hp3\<lparr>num_fft := old_fft_freqs\<rparr>
              in (hp4, Inr files)))"

subsection \<open>Fields of a line\<close>

text \<open>
  The item \<open>__init__\<close> builds from the tokens of a line that has enough of them, and the
  number of fields a line has between its \<open>|\<close>.
\<close>

definition item_of_tokens :: "string list \<Rightarrow> (string, string) item" where
  "item_of_tokens toks =
     \<lparr>item_id = toks ! 0, item_speaker = toks ! 1, item_language = toks ! 2,
      item_audio = toks ! 3, item_spectrogram = toks ! 4, item_linear_spectrogram = toks ! 5,
      item_text = toks ! 6, item_phonemes = toks ! 7\<rparr>"

definition field_count :: "string \<Rightarrow> nat" where
  "field_count line = length (split_on CHR ''|'' line)"

text \<open>
  The items of the lines of an accepted language, in the order of the file, for a file
  whose lines all have enough fields.
\<close>

definition accepted_items :: "string list \<Rightarrow> string list \<Rightarrow> (string, string) item list" where
  "accepted_items langs meta_lines =
     filter (\<lambda>item. item_language item \<in> set langs)
       (map (\<lambda>line. item_of_tokens (split_on CHR ''|'' (butlast line))) meta_lines)"

section \<open>The collator of \<open>dataset/dataset.py\<close>\<close>

text \<open>
  An example is the tuple \<open>__getitem__\<close> returns: speaker id, language id, symbol ids, mel
  spectrogram and linear spectrogram or \<open>None\<close>. A spectrogram is the list of its rows, one
  row for each frequency band and one column for each frame.
\<close>

type_synonym 'a example = "nat \<times> nat \<times> int list \<times> 'a list list \<times> 'a list list option"

definition utterance_of :: "'a example \<Rightarrow> int list" where
  "utterance_of e = (case e of (s, l, u, a, b) \<Rightarrow> u)"

definition mel_of :: "'a example \<Rightarrow> 'a list list" where
  "mel_of e = (case e of (s, l, u, a, b) \<Rightarrow> a)"

text \<open>\<open>len(a[0])\<close>, the number of frames of the example, where \<open>a[0]\<close> exists.\<close>

definition frame_count :: "'a example \<Rightarrow> nat" where
  "frame_count e = length (hd (mel_of e))"

subsection \<open>Assignments to slices of a tensor\<close>

text \<open>
  \<open>row[:n] = src\<close> for one-dimensional tensors. The slice has \<open>min n (len(row))\<close> places;
  \<open>src\<close> must have that many entries, or one entry, which is then repeated.
\<close>

definition stretch :: "nat \<Rightarrow> 'a list \<Rightarrow> 'a list" where
  "stretch m src = (if length src = m then src else replicate m (hd src))"

definition assign_prefix :: "'a list \<Rightarrow> nat \<Rightarrow> 'a list \<Rightarrow> exn + 'a list" where
  "assign_prefix row n src =
     (let m = min n (length row) in
      if length src = m \<or> length src = 1 then Inr (stretch m src @ drop m row)
      else Inl RuntimeError)"

text \<open>
  \<open>block[:, :n] = src\<close> for a block of rows of \<open>width\<close> columns and a two-dimensional
  \<open>src\<close>: each dimension of \<open>src\<close> must be that of the slice, or 1.
\<close>

definition assign_block :: "'a list list \<Rightarrow> nat \<Rightarrow> nat \<Rightarrow> 'a list list \<Rightarrow> exn + 'a list list" where
  "assign_block block width n src =
     (let m = min n width;
          r = length src;
          c = (case src of [] \<Rightarrow> 0 | row # _ \<Rightarrow> length row)
      in if (r = length block \<or> r = 1) \<and> (c = m \<or> c = 1)
         then Inr (map (\<lambda>k. stretch m (src ! (if r = length block then k else 0))
                              @ drop m (block ! k))
                     [0..<length block])
         else Inl RuntimeError)"

text \<open>
  \<open>row[start:] = v\<close>: a negative \<open>start\<close> counts from the end of the row, and the start is
  then clipped to the row.
\<close>

definition fill_from :: "'a list \<Rightarrow> int \<Rightarrow> 'a \<Rightarrow> 'a list" where
  "fill_from row start v =
     (let len = int (length row);
          s0 = (if start < 0 then start + len else start);
          s = nat (max 0 (min s0 len))
      in take s row @ replicate (length row - s) v)"

text \<open>\<open>tensor[idxs]\<close> for a tensor of indices.\<close>

definition index_select :: "'a list \<Rightarrow> nat list \<Rightarrow> exn + 'a list" where
  "index_select xs idxs = exn_map (py_index xs) idxs"

subsection \<open>\<open>torch.sort\<close>\<close>

text \<open>
  \<open>torch.sort(x, descending=True)\<close> is not code of the repository; it is a parameter that
  returns the sorted values and their indices. Its documentation promises what
  \<open>sorted_descending\<close> says: the indices are a permutation of the positions, the values are
  the entries at these indices, and they descend. It promises the order of equal entries
  only under \<open>stable=True\<close>, which the collator does not pass.
\<close>

definition sorted_descending :: "nat list \<Rightarrow> nat list \<times> nat list \<Rightarrow> bool" where
  "sorted_descending xs r \<longleftrightarrow>
     (case r of (vals, idxs) \<Rightarrow>
        length idxs = length xs \<and> distinct idxs \<and> (\<forall>i\<in>set idxs. i < length xs)
        \<and> vals = map (\<lambda>i. xs ! i) idxs \<and> sorted (rev vals))"


subsection \<open>\<open>TextToSpeechCollate.__call__\<close>\<close>

text \<open>Lines 230 to 240: the loop that collects the lengths.\<close>

fun collate_lengths ::
  "'a example list \<Rightarrow> nat list \<Rightarrow> nat list \<Rightarrow> nat list \<Rightarrow> nat list \<Rightarrow> nat \<Rightarrow>
   exn + nat list \<times> nat list \<times> nat list \<times> nat list \<times> nat" where
  "collate_lengths [] speaker_ids language_ids utterance_lengths spectrogram_lengths max_frames =
     Inr (speaker_ids, language_ids, utterance_lengths, spectrogram_lengths, max_frames)"
| "collate_lengths ((s, l, u, a, b) # rest) speaker_ids language_ids utterance_lengths
     spectrogram_lengths max_frames =
     exn_bind (py_index a 0) (\<lambda>a0.
       collate_lengths rest (speaker_ids @ [s]) (language_ids @ [l])
         (utterance_lengths @ [length u]) (spectrogram_lengths @ [length a0])
         (if length a0 > max_frames then length a0 else max_frames))"

text \<open>The four tensors the second loop fills.\<close>

record 'a tensors =
  t_utterances :: "int list list"
  t_mel_spectrograms :: "'a list list list"
  t_lin_spectrograms :: "'a list list list option"
  t_stop_tokens :: "'a list list"

text \<open>
  Lines 256 to 262: the loop over \<open>enumerate(sorted_idxs)\<close>, \<open>i\<close> counting the rows and
  \<open>max_frames\<close> being the width of the spectrogram and stop tensors.
\<close>

fun collate_fill ::
  "'o Params \<Rightarrow> ('a::zero_neq_one) example list \<Rightarrow> nat \<Rightarrow> nat \<Rightarrow> nat list \<Rightarrow> 'a tensors \<Rightarrow>
   exn + 'a tensors" where
  "collate_fill hp batch max_frames i [] T = Inr T"
| "collate_fill hp batch max_frames i (idx # rest) T =
     exn_bind (py_index batch idx) (\<lambda>(s, l, u, a, b).
     exn_bind (py_index (t_utterances T) i) (\<lambda>urow.
     exn_bind (assign_prefix urow (length u) u) (\<lambda>urow'.
     exn_bind (py_index a 0) (\<lambda>a0.
     exn_bind (py_index (t_mel_spectrograms T) i) (\<lambda>mblock.
     exn_bind (assign_block mblock max_frames (length a0) a) (\<lambda>mblock'.
     exn_bind (if predict_linear hp
               then (case b of
                       None \<Rightarrow> Inl TypeError
                     | Some b' \<Rightarrow>
                         exn_bind (py_index b' 0) (\<lambda>b0.
                         (case t_lin_spectrograms T of
                            None \<Rightarrow> Inl TypeError
                          | Some lin \<Rightarrow>
                              exn_bind (py_index lin i) (\<lambda>lblock.
                              exn_bind (assign_block lblock max_frames (length b0) b')
                                (\<lambda>lblock'. Inr (Some (lin[i := lblock'])))))))
               else Inr (t_lin_spectrograms T)) (\<lambda>lin'.
     exn_bind (py_index (t_stop_tokens T) i) (\<lambda>srow.
       collate_fill hp batch max_frames (Suc i) rest
         \<lparr>t_utterances = (t_utterances T)[i := urow'],
          t_mel_spectrograms = (t_mel_spectrograms T)[i := mblock'],
          t_lin_spectrograms = lin',
          t_stop_tokens = (t_stop_tokens T)[i := fill_from srow (int (length a0) - 1) 1]\<rparr>))))))))"

text \<open>What the collator returns.\<close>

record 'a collated =
  out_utterance_lengths :: "nat list"
  out_utterances :: "int list list"
  out_mel_spectrograms :: "'a list list list"
  out_lin_spectrograms :: "'a list list list option"
  out_stop_tokens :: "'a list list"
  out_spectrogram_lengths :: "nat list"
  out_speakers :: "nat list option"
  out_languages :: "nat list option"

definition collate ::
  "(nat list \<Rightarrow> nat list \<times> nat list) \<Rightarrow> 'o Params \<Rightarrow> ('a::zero_neq_one) example list \<Rightarrow>
   exn + 'a collated" where
  "collate torch_sort hp batch =
     exn_bind (collate_lengths batch [] [] [] [] 0)
       (\<lambda>(speaker_ids, language_ids, utterance_lengths, spectrogram_lengths0, max_frames).
     (case torch_sort utterance_lengths of (sorted_utterance_lengths, sorted_idxs) \<Rightarrow>
     exn_bind (index_select spectrogram_lengths0 sorted_idxs) (\<lambda>spectrogram_lengths.
     exn_bind (if \<not> multi_speaker hp then Inr None
               else exn_bind (index_select speaker_ids sorted_idxs) (\<lambda>x. Inr (Some x)))
       (\<lambda>speakers.
     exn_bind (if \<not> multi_language hp then Inr None
               else exn_bind (index_select language_ids sorted_idxs) (\<lambda>x. Inr (Some x)))
       (\<lambda>langs.
     exn_bind (py_index sorted_utterance_lengths 0) (\<lambda>longest.
       let batch_size = length batch;
           T0 = \<lparr>t_utterances = replicate batch_size (replicate longest 0),
                 t_mel_spectrograms =
                   replicate batch_size (replicate (num_mels hp) (replicate max_frames 0)),
                 t_lin_spectrograms =
                   (if predict_linear hp
                    then Some (replicate batch_size
                                 (replicate (num_fft hp div 2 + 1) (replicate max_frames 0)))
                    else None),
                 t_stop_tokens = replicate batch_size (replicate max_frames 0)\<rparr>
       in exn_bind (collate_fill hp batch max_frames 0 sorted_idxs T0) (\<lambda>T.
            Inr \<lparr>out_utterance_lengths = sorted_utterance_lengths,
                 out_utterances = t_utterances T,
                 out_mel_spectrograms = t_mel_spectrograms T,
                 out_lin_spectrograms = t_lin_spectrograms T,
                 out_stop_tokens = t_stop_tokens T,
                 out_spectrogram_lengths = spectrogram_lengths,
                 out_speakers = speakers,
                 out_languages = langs\<rparr>)))))))"

subsection \<open>Notions for the statements about the collator\<close>

text \<open>
  The relation between the tensors before and after the filling loop: the numbers of rows
  agree, row \<open>r\<close> is untouched, or row \<open>r\<close> has been filled from the example \<open>e\<close>. Then the
  lengths of the utterances of a batch, the indices \<open>torch.sort\<close> returns for them, the
  longest utterance and the largest number of frames.
\<close>

definition same_lengths :: "'a tensors \<Rightarrow> 'a tensors \<Rightarrow> bool" where
  "same_lengths T T' \<longleftrightarrow>
     length (t_utterances T') = length (t_utterances T)
     \<and> length (t_mel_spectrograms T') = length (t_mel_spectrograms T)
     \<and> length (t_stop_tokens T') = length (t_stop_tokens T)"

definition rows_same :: "'a tensors \<Rightarrow> 'a tensors \<Rightarrow> nat \<Rightarrow> bool" where
  "rows_same T T' r \<longleftrightarrow>
     t_utterances T' ! r = t_utterances T ! r
     \<and> t_mel_spectrograms T' ! r = t_mel_spectrograms T ! r
     \<and> t_stop_tokens T' ! r = t_stop_tokens T ! r"

definition row_filled ::
  "nat \<Rightarrow> ('a::zero_neq_one) tensors \<Rightarrow> 'a tensors \<Rightarrow> nat \<Rightarrow> 'a example \<Rightarrow> bool" where
  "row_filled F T T' r e \<longleftrightarrow>
     r < length (t_utterances T) \<and> r < length (t_mel_spectrograms T)
     \<and> r < length (t_stop_tokens T) \<and> mel_of e \<noteq> []
     \<and> assign_prefix (t_utterances T ! r) (length (utterance_of e)) (utterance_of e)
          = Inr (t_utterances T' ! r)
     \<and> assign_block (t_mel_spectrograms T ! r) F (frame_count e) (mel_of e)
          = Inr (t_mel_spectrograms T' ! r)
     \<and> t_stop_tokens T' ! r = fill_from (t_stop_tokens T ! r) (int (frame_count e) - 1) 1"

definition utterance_lengths_of :: "'a example list \<Rightarrow> nat list" where
  "utterance_lengths_of batch = map (\<lambda>e. length (utterance_of e)) batch"

definition sorted_idxs_of :: "(nat list \<Rightarrow> nat list \<times> nat list) \<Rightarrow> 'a example list \<Rightarrow> nat list" where
  "sorted_idxs_of torch_sort batch = snd (torch_sort (utterance_lengths_of batch))"

definition longest_utterance :: "'a example list \<Rightarrow> nat" where
  "longest_utterance batch = Max (set (utterance_lengths_of batch))"

definition most_frames :: "'a example list \<Rightarrow> nat" where
  "most_frames batch = Max (set (map frame_count batch))"

section \<open>\<open>Tacotron.inference\<close> of \<open>modules/tacotron2.py\<close>\<close>

text \<open>
  \<open>inference\<close> changes the tensor object its caller passes, so tensor objects live in a
  store: a Python variable holds a reference, and the store gives the object behind each
  reference, with its shape and its entries in row-major order.
\<close>

record 'x tensor_obj =
  shape :: "nat list"
  entries :: "'x list"

type_synonym 'x store = "nat \<Rightarrow> 'x tensor_obj"

text \<open>
  \<open>t.unsqueeze_(0)\<close>: the trailing underscore is the in-place variant; the object behind
  the reference gets a new first dimension of size 1 and keeps its entries.
\<close>

definition unsqueeze_inplace :: "'x store \<Rightarrow> nat \<Rightarrow> 'x store" where
  "unsqueeze_inplace h r = h(r := (h r)\<lparr>shape := 1 # shape (h r)\<rparr>)"

text \<open>
  The modules of the model are parameters, as for the decoder:
  \<^item> \<open>embedding\<close> is \<open>self._embedding\<close>, which raises on a symbol id it has no row for;
  \<^item> \<open>encoder\<close> is \<open>self._encoder\<close>, given the embedded text, its length and the language;
  \<^item> \<open>zeros_encoded\<close> is \<open>torch.zeros\<close> of the three dimensions;
  \<^item> \<open>add_latent\<close> is lines 412 to 414;
  \<^item> \<open>inference_mask\<close> is the mask \<open>Decoder.inference\<close> builds from the encoded input;
  \<^item> \<open>postnet\<close> is lines 420 to 422, from the slices of the predicted spectrogram.
\<close>

record ('x, 'v, 's) tacotron_modules =
  embedding :: "'x tensor_obj \<Rightarrow> exn + 'v"
  encoder :: "'v \<Rightarrow> nat \<Rightarrow> 'v option \<Rightarrow> 'v"
  zeros_encoded :: "nat \<Rightarrow> nat \<Rightarrow> nat \<Rightarrow> 'v"
  add_latent :: "'v \<Rightarrow> 'v"
  decoder :: "('v, 's) decoder_modules"
  inference_mask :: "'v \<Rightarrow> 'v"
  postnet :: "'v list \<Rightarrow> 'v"

text \<open>
  \<open>Tacotron.inference\<close>, from the store and the reference the caller passes as \<open>text\<close>, to
  the store after the call and the result or the exception.
\<close>

definition tacotron_inference ::
  "('x, 'v::zero, 's) tacotron_modules \<Rightarrow> 'o Params \<Rightarrow> 'x store \<Rightarrow> nat \<Rightarrow> 'v option \<Rightarrow> 'v option \<Rightarrow>
   'x store \<times> (exn + 'v)" where
  "tacotron_inference M hp h text_ref speaker language =
     (let h1 = unsqueeze_inplace h text_ref;
          t = h1 text_ref
      in (h1,
          exn_bind
            (if \<not> encoder_disabled hp
             then exn_bind (embedding M t) (\<lambda>embedded.
                  exn_bind (py_index (shape t) 1) (\<lambda>n.
                    Inr (encoder M embedded n language)))
             else exn_bind (py_index (shape t) 0) (\<lambda>d0.
                  exn_bind (py_index (shape t) 1) (\<lambda>d1.
                    Inr (zeros_encoded M d0 d1 (encoder_dimension hp)))))
            (\<lambda>encoded.
               let encoded' = (if residual_encoder hp then add_latent M encoded else encoded)
               in exn_bind (decoder_inference (decoder M) hp (inference_mask M) encoded'
                              speaker language)
                    (\<lambda>prediction. Inr (postnet M prediction)))))"

section \<open>Concrete inputs\<close>

text \<open>The configuration as \<open>params/params.py\<close> sets it.\<close>

definition default_params :: "unit Params" where
  "default_params = \<lparr>sample_rate = 22050, num_fft = 1102, num_mels = 80, languages = [''en-us''],
     predict_linear = True, multi_speaker = False, multi_language = False,
     cache_spectrograms = True, normalize_spectrogram = True, use_punctuation = True,
     case_sensitive = True, remove_multiple_wspaces = True, use_phonemes = False,
     stop_frames = 5, max_output_length = 5000, encoder_disabled = False,
     encoder_dimension = 512, residual_encoder = False, other_attributes = ()\<rparr>"

text \<open>
  Two decoders with integers for tensors and a cap of ten frames. The frame of step \<open>i\<close> is
  \<open>i\<close>. The first predicts a stop from step 2 on; the second at step 0 only.
\<close>

definition steady_modules :: "(int, unit) decoder_modules" where
  "steady_modules = \<lparr>max_frames_limit = 10, prenet = (\<lambda>i v. v),
     speaker_embedding = (\<lambda>e c. e), language_embedding = (\<lambda>e c. e),
     start_state = (\<lambda>e m. ()),
     recurrent_step = (\<lambda>i s p. ((), int i, 0, if 2 \<le> i then 1 else - 1)),
     stop_predicted = (\<lambda>l. Some (0 \<le> l)),
     target_size2 = (\<lambda>t. 0), target_init = (\<lambda>t i. 0)\<rparr>"

definition transient_modules :: "(int, unit) decoder_modules" where
  "transient_modules = \<lparr>max_frames_limit = 10, prenet = (\<lambda>i v. v),
     speaker_embedding = (\<lambda>e c. e), language_embedding = (\<lambda>e c. e),
     start_state = (\<lambda>e m. ()),
     recurrent_step = (\<lambda>i s p. ((), int i, 0, if i = 0 then 1 else - 1)),
     stop_predicted = (\<lambda>l. Some (0 \<le> l)),
     target_size2 = (\<lambda>t. 0), target_init = (\<lambda>t i. 0)\<rparr>"

definition no_draws :: "nat \<Rightarrow> real" where "no_draws = (\<lambda>i. 0)"

text \<open>
  Externals for the examples. Loaded audio is a list of samples that begins with the sample
  rate in force; the spectrogram of an audio has \<open>num_mels\<close> rows, or \<open>num_fft div 2 + 1\<close>
  for the linear one, each row being the audio; the cache holds one array of two rows
  under every path; normalising subtracts 1 from every entry; the loader yields one item
  with no language; the phonemes of a text are its reversal.
\<close>

definition example_externals :: "(int, int list, unit, unit) externals" where
  "example_externals = \<lparr>
     path_join = (\<lambda>a b. a @ ''/'' @ b),
     path_exists = (\<lambda>p. False),
     np_load = (\<lambda>p. Inr [[1, 2, 3], [4, 5, 6]]),
     audio_load = (\<lambda>hp p. Inr [sample_rate hp, 7]),
     audio_spectrogram = (\<lambda>hp w is_mel.
        Inr (replicate (if is_mel then num_mels hp else num_fft hp div 2 + 1) w)),
     audio_normalize_spectrogram = (\<lambda>hp x is_mel. map (map (\<lambda>v. v - 1)) x),
     get_loader = (\<lambda>hp name root. Inr [(''hi'', ''a.wav'', ''amy'', '''')]),
     build_phoneme_dicts = (\<lambda>hp pairs. Inr (\<lambda>l. Some ())),
     to_phoneme = (\<lambda>hp t b l d. Inr (rev t)),
     os_makedirs = (\<lambda>p. Inr ()),
     open_write = (\<lambda>p. Inr ()),
     np_save = (\<lambda>p x. Inr ()),
     print_to = (\<lambda>p l. Inr ())\<rparr>"

definition small_params :: "unit Params" where
  "small_params = default_params\<lparr>num_mels := 2, num_fft := 4\<rparr>"

text \<open>Text functions for the examples, and two orders of iterating a set of names: by first
  addition, and by last addition backwards.\<close>

definition plain_text_utils :: "unit text_utils" where
  "plain_text_utils = \<lparr>remove_punctuation = filter (\<lambda>c. c \<noteq> CHR ''.''),
     to_lower = (\<lambda>s. s), remove_odd_whitespaces = (\<lambda>s. s),
     to_sequence = (\<lambda>hp s use_phonemes. map (\<lambda>c. int (of_char c)) s)\<rparr>"

definition first_seen :: "string list \<Rightarrow> string list" where
  "first_seen added = rev (remdups (rev added))"

definition late_first :: "string list \<Rightarrow> string list" where
  "late_first added = remdups (rev added)"

text \<open>Lines of a meta-file: one too short, one too long, a file of the long line, a line of
  8 fields and a line of another language, and a file of two speakers.\<close>

definition short_line :: string where
  "short_line = ''1|amy|xx|a.wav\<newline>''"

definition long_line :: string where
  "long_line = ''7|bob|en-us|a.wav|a.npy|b.npy|hi|h|more|and more\<newline>''"

definition full_manifest :: "string list" where
  "full_manifest = [long_line, ''1|amy|en-us|c.wav|c.npy|d.npy|ho.|o\<newline>'',
                    ''2|zed|xx|e.wav|e.npy|f.npy|hu|u\<newline>'']"

definition two_speakers :: "string list" where
  "two_speakers = [''0|bob|en-us|a.wav|a.npy|b.npy|hi|h\<newline>'',
                   ''1|amy|en-us|c.wav|c.npy|d.npy|ho|o\<newline>'']"

text \<open>
  Two sorts that meet the contract of \<open>torch.sort\<close>: one keeps equal entries in their order,
  the other reverses them. Then a configuration with two mel bands and two linear
  bands, and three batches of two examples: utterances of 2 and 3 symbols with 4 and 2
  frames; two utterances of 2 symbols; and one example whose spectrogram has no frame.
\<close>

definition stable_torch_sort :: "nat list \<Rightarrow> nat list \<times> nat list" where
  "stable_torch_sort xs =
     (let idxs = sort_key (\<lambda>i. - int (xs ! i)) [0..<length xs]
      in (map (\<lambda>i. xs ! i) idxs, idxs))"


definition collate_params :: "unit Params" where
  "collate_params = default_params\<lparr>num_mels := 2, num_fft := 2\<rparr>"

definition short_long_batch :: "int example list" where
  "short_long_batch =
     [(0, 0, [11, 12], [[1, 2, 3, 4], [5, 6, 7, 8]], Some [[1, 1, 1, 1], [2, 2, 2, 2]]),
      (1, 0, [21, 22, 23], [[9, 8], [7, 6]], Some [[3, 3], [4, 4]])]"


definition empty_frames_batch :: "int example list" where
  "empty_frames_batch =
     [(0, 0, [11, 12], [[1, 2, 3], [4, 5, 6]], Some [[1, 1, 1], [2, 2, 2]]),
      (1, 0, [21], [[], []], Some [[], []])]"


definition short_long_collated :: "int collated" where
  "short_long_collated =
     \<lparr>out_utterance_lengths = [3, 2],
      out_utterances = [[21, 22, 23], [11, 12, 0]],
      out_mel_spectrograms = [[[9, 8, 0, 0], [7, 6, 0, 0]], [[1, 2, 3, 4], [5, 6, 7, 8]]],
      out_lin_spectrograms =
        Some [[[3, 3, 0, 0], [4, 4, 0, 0]], [[1, 1, 1, 1], [2, 2, 2, 2]]],
      out_stop_tokens = [[0, 1, 1, 1], [0, 0, 0, 1]],
      out_spectrogram_lengths = [2, 4], out_speakers = None, out_languages = None\<rparr>"



definition empty_frames_collated :: "int collated" where
  "empty_frames_collated =
     \<lparr>out_utterance_lengths = [2, 1],
      out_utterances = [[11, 12], [21, 0]],
      out_mel_spectrograms = [[[1, 2, 3], [4, 5, 6]], [[0, 0, 0], [0, 0, 0]]],
      out_lin_spectrograms =
        Some [[[1, 1, 1], [2, 2, 2]], [[0, 0, 0], [0, 0, 0]]],
      out_stop_tokens = [[0, 0, 1], [0, 0, 1]],
      out_spectrogram_lengths = [3, 0], out_speakers = None, out_languages = None\<rparr>"

text \<open>
  A model with integers for tensors: the embedding adds the symbol ids up and raises on a
  negative one, the encoder adds the length, the decoder is \<open>steady_modules\<close>, the postnet
  adds the frames up. The caller's store holds a tensor of three symbols behind reference
  0 and one with a negative id behind reference 1.
\<close>

definition example_tacotron :: "(int, int, unit) tacotron_modules" where
  "example_tacotron = \<lparr>
     embedding = (\<lambda>t. if \<forall>x\<in>set (entries t). 0 \<le> x then Inr (sum_list (entries t))
                       else Inl IndexError),
     encoder = (\<lambda>e n l. e + int n),
     zeros_encoded = (\<lambda>a b c. 0),
     add_latent = (\<lambda>e. e),
     decoder = steady_modules,
     inference_mask = (\<lambda>e. 0),
     postnet = sum_list\<rparr>"

definition caller_store :: "int store" where
  "caller_store = (\<lambda>r. \<lparr>shape = [0], entries = []\<rparr>)
     (0 := \<lparr>shape = [3], entries = [5, 6, 7]\<rparr>,
      1 := \<lparr>shape = [2], entries = [4, - 1]\<rparr>)"

section \<open>Training never stops early\<close>

lemma take_Suc_update:
  "k < length xs \<Longrightarrow> take (Suc k) (xs[k := v]) = take k xs @ [v]"
  by (simp add: take_Suc_conv_app_nth)

lemma decode_loop_training_trace:
  fixes D :: "('v::zero, 's) decoder_modules"
  assumes "k \<le> n"
    and "length (spectrogram st) = n" and "length (alignments st) = n"
    and "length (stop_logit_store st) = n"
    and "training_steps D teacher tgt s0 k = (rnn st, frame st, w0, l0)"
    and "take k (spectrogram st)
           = map (\<lambda>i. step_frame (training_steps D teacher tgt s0 (Suc i))) [0..<k]"
    and "take k (alignments st)
           = map (\<lambda>i. step_weights (training_steps D teacher tgt s0 (Suc i))) [0..<k]"
    and "take k (stop_logit_store st)
           = map (\<lambda>i. step_logits (training_steps D teacher tgt s0 (Suc i))) [0..<k]"
  shows "decode_loop D S False teacher tgt [k..<n] st =
     Inr \<lparr>dec_spectrogram = map (\<lambda>i. step_frame (training_steps D teacher tgt s0 (Suc i))) [0..<n],
          dec_stop_tokens = map (\<lambda>i. step_logits (training_steps D teacher tgt s0 (Suc i))) [0..<n],
          dec_alignments = map (\<lambda>i. step_weights (training_steps D teacher tgt s0 (Suc i))) [0..<n]\<rparr>"
  using assms
proof (induction "n - k" arbitrary: k st w0 l0)
  case 0
  then have "k = n" by simp
  with 0 show ?case by simp
next
  case (Suc d)
  then have k: "k < n" by simp
  then have upt: "[k..<n] = k # [Suc k..<n]" by (simp add: upt_conv_Cons)
  define prev where "prev = (if \<not> teacher k then prenet D k (frame st) else tgt k)"
  obtain r f w l where step: "recurrent_step D k (rnn st) prev = (r, f, w, l)"
    by (cases "recurrent_step D k (rnn st) prev") auto
  define st1 where "st1 = st\<lparr>frame := f, rnn := r,
      spectrogram := (spectrogram st)[k := f],
      alignments := (alignments st)[k := w],
      stop_logit_store := (stop_logit_store st)[k := l]\<rparr>"
  have unfold: "decode_loop D S False teacher tgt [k..<n] st
      = decode_loop D S False teacher tgt [Suc k..<n] st1"
    using step by (simp add: upt prev_def st1_def)
  have next_step: "training_steps D teacher tgt s0 (Suc k) = (r, f, w, l)"
    using Suc.prems(5) step by (simp add: prev_def)
  have d: "d = n - Suc k" using Suc.hyps(2) by simp
  have kk: "Suc k \<le> n" using k by simp
  have len: "length (spectrogram st1) = n" "length (alignments st1) = n"
    "length (stop_logit_store st1) = n"
    using Suc.prems by (simp_all add: st1_def)
  have cur: "training_steps D teacher tgt s0 (Suc k) = (rnn st1, frame st1, w, l)"
    using next_step by (simp add: st1_def)
  have t1: "take (Suc k) (spectrogram st1)
           = map (\<lambda>i. step_frame (training_steps D teacher tgt s0 (Suc i))) [0..<Suc k]"
    using k Suc.prems(2,6) next_step
    by (simp add: st1_def take_Suc_update step_frame_def)
  have t2: "take (Suc k) (alignments st1)
           = map (\<lambda>i. step_weights (training_steps D teacher tgt s0 (Suc i))) [0..<Suc k]"
    using k Suc.prems(3,7) next_step
    by (simp add: st1_def take_Suc_update step_weights_def)
  have t3: "take (Suc k) (stop_logit_store st1)
           = map (\<lambda>i. step_logits (training_steps D teacher tgt s0 (Suc i))) [0..<Suc k]"
    using k Suc.prems(4,8) next_step
    by (simp add: st1_def take_Suc_update step_logits_def)
  show ?case
    unfolding unfold by (rule Suc.hyps(1) [OF d kk len cur t1 t2 t3])
qed


text \<open>
  C2. With a target, whatever the teacher forcing ratio and the random draws, \<open>_decode\<close>
  returns (no exception of the loop's own, no early return), and each of the three tensors
  it returns has exactly \<open>target.size(2)\<close> slices along the step dimension: slice \<open>i\<close> is
  what step \<open>i\<close> of the recurrence produced.
\<close>

theorem decode_training_full_length:
  fixes D :: "('v::zero, 's) decoder_modules"
  shows "\<exists>out. decode D hp encoded_input input_mask (Some t) teacher_forcing_ratio rand
            speaker language = Inr out
     \<and> length (dec_spectrogram out) = target_size2 D t
     \<and> length (dec_stop_tokens out) = target_size2 D t
     \<and> length (dec_alignments out) = target_size2 D t
     \<and> dec_spectrogram out
         = map (\<lambda>i. step_frame (training_steps D (\<lambda>i. 1 - teacher_forcing_ratio < rand i)
                   (target_init D t)
                   (decode_start D hp encoded_input input_mask speaker language) (Suc i)))
               [0..<target_size2 D t]
     \<and> dec_stop_tokens out
         = map (\<lambda>i. step_logits (training_steps D (\<lambda>i. 1 - teacher_forcing_ratio < rand i)
                   (target_init D t)
                   (decode_start D hp encoded_input input_mask speaker language) (Suc i)))
               [0..<target_size2 D t]
     \<and> dec_alignments out
         = map (\<lambda>i. step_weights (training_steps D (\<lambda>i. 1 - teacher_forcing_ratio < rand i)
                   (target_init D t)
                   (decode_start D hp encoded_input input_mask speaker language) (Suc i)))
               [0..<target_size2 D t]"
proof -
  let ?n = "target_size2 D t"
  let ?s0 = "decode_start D hp encoded_input input_mask speaker language"
  let ?teacher = "\<lambda>i. 1 - teacher_forcing_ratio < rand i"
  let ?st = "\<lparr>frame = (0::'v), rnn = ?s0, stop_frames_left = - 1,
              spectrogram = replicate ?n 0, alignments = replicate ?n 0,
              stop_logit_store = replicate ?n 0\<rparr>"
  have run: "decode D hp encoded_input input_mask (Some t) teacher_forcing_ratio rand
      speaker language
      = decode_loop D (stop_frames hp) False ?teacher (target_init D t) [0..<?n] ?st"
    by (simp add: decode_def decode_start_def Let_def)
  have "decode_loop D (stop_frames hp) False ?teacher (target_init D t) [0..<?n] ?st =
     Inr \<lparr>dec_spectrogram = map (\<lambda>i. step_frame
              (training_steps D ?teacher (target_init D t) ?s0 (Suc i))) [0..<?n],
          dec_stop_tokens = map (\<lambda>i. step_logits
              (training_steps D ?teacher (target_init D t) ?s0 (Suc i))) [0..<?n],
          dec_alignments = map (\<lambda>i. step_weights
              (training_steps D ?teacher (target_init D t) ?s0 (Suc i))) [0..<?n]\<rparr>"
    by (rule decode_loop_training_trace [where ?w0.0 = 0 and ?l0.0 = 0]) simp_all
  then show ?thesis unfolding run by simp
qed

section \<open>Stopping during inference\<close>

lemma stop_count_snoc:
  "stop_count D (ls @ [l]) = stop_count D ls + (if stop_predicted D l = Some True then 1 else 0)"
  by (simp add: stop_count_def)

lemma decode_loop_inference:
  assumes "1 \<le> S"
    and "length (spectrogram st) = M" and "length (alignments st) = M"
    and "length (stop_logit_store st) = M"
    and "k \<le> M" and "countdown_inv D S k st"
    and "decode_loop D S True teacher tgt [k..<M] st = Inr out"
  shows "stopped_as_counted D S M out"
  using assms(2-)
proof (induction "M - k" arbitrary: k st)
  case 0
  then have "k = M" by simp
  with 0 \<open>1 \<le> S\<close> show ?case
    by (auto simp: stopped_as_counted_def countdown_inv_def)
next
  case (Suc d)
  then have k: "k < M" by simp
  then have upt: "[k..<M] = k # [Suc k..<M]" by (simp add: upt_conv_Cons)
  obtain r f w l where step: "recurrent_step D k (rnn st) (prenet D k (frame st)) = (r, f, w, l)"
    by (cases "recurrent_step D k (rnn st) (prenet D k (frame st))") auto
  define st1 where "st1 = st\<lparr>frame := f, rnn := r,
      spectrogram := (spectrogram st)[k := f],
      alignments := (alignments st)[k := w],
      stop_logit_store := (stop_logit_store st)[k := l]\<rparr>"
  have len1: "length (spectrogram st1) = M" "length (alignments st1) = M"
    "length (stop_logit_store st1) = M"
    using Suc.prems by (simp_all add: st1_def)
  have cnt: "stop_count D (take (Suc k) (stop_logit_store st1))
      = stop_count D (take k (stop_logit_store st))
        + (if stop_predicted D l = Some True then 1 else 0)"
    using k Suc.prems by (simp add: st1_def take_Suc_update stop_count_snoc)
  have d: "d = M - Suc k" using Suc.hyps(2) by simp
  have kk: "Suc k \<le> M" using k by simp
  note IH = Suc.hyps(1) [OF d _ _ _ kk]
  show ?case
  proof (cases "stop_predicted D l")
    case None
    with Suc.prems step show ?thesis by (simp add: upt)
  next
    case (Some b)
    show ?thesis
    proof (cases b)
      case False
      have inv: "countdown_inv D S (Suc k) st1"
        using Suc.prems(5) cnt Some False by (simp add: countdown_inv_def st1_def)
      have "decode_loop D S True teacher tgt [Suc k..<M] st1 = Inr out"
        using Suc.prems(6) step Some False by (simp add: upt st1_def)
      from IH [OF len1 inv this] show ?thesis .
    next
      case True
      show ?thesis
      proof (cases "stop_frames_left st = - 1")
        case c: True
        define st2 where "st2 = st1\<lparr>stop_frames_left := S\<rparr>"
        have inv: "countdown_inv D S (Suc k) st2"
          using Suc.prems(5) cnt Some True c \<open>1 \<le> S\<close>
          by (simp add: countdown_inv_def st1_def st2_def)
        have "decode_loop D S True teacher tgt [Suc k..<M] st2 = Inr out"
          using Suc.prems(6) step Some True c by (simp add: upt st1_def st2_def)
        moreover have "length (spectrogram st2) = M" "length (alignments st2) = M"
          "length (stop_logit_store st2) = M" using len1 by (simp_all add: st2_def)
        ultimately show ?thesis using IH inv by blast
      next
        case c: False
        with Suc.prems(5) have c1: "1 \<le> stop_frames_left st" "stop_frames_left st \<le> S"
          and cs: "int (stop_count D (take k (stop_logit_store st))) = S - stop_frames_left st + 1"
          by (auto simp: countdown_inv_def)
        show ?thesis
        proof (cases "stop_frames_left st = 1")
          case one: True
          have out: "out = \<lparr>dec_spectrogram = take (Suc k) (spectrogram st1),
                             dec_stop_tokens = take (Suc k) (stop_logit_store st1),
                             dec_alignments = take (Suc k) (alignments st1)\<rparr>"
            using Suc.prems(6) step Some True c one by (simp add: upt st1_def)
          have lst: "last (take (Suc k) (stop_logit_store st1)) = l"
            using k Suc.prems by (simp add: st1_def take_Suc_update)
          have ne: "take (Suc k) (stop_logit_store st1) \<noteq> []"
            using k len1 by auto
          show ?thesis
            using cnt cs one Some True len1 kk lst ne
            by (simp add: out stopped_as_counted_def)
        next
          case more: False
          define st2 where "st2 = st1\<lparr>stop_frames_left := stop_frames_left st - 1\<rparr>"
          have inv: "countdown_inv D S (Suc k) st2"
            using c1 cs cnt Some True more
            by (simp add: countdown_inv_def st1_def st2_def)
          have "decode_loop D S True teacher tgt [Suc k..<M] st2 = Inr out"
            using Suc.prems(6) step Some True c more by (simp add: upt st1_def st2_def)
          moreover have "length (spectrogram st2) = M" "length (alignments st2) = M"
            "length (stop_logit_store st2) = M" using len1 by (simp_all add: st2_def)
          ultimately show ?thesis using IH inv by blast
        qed
      qed
    qed
  qed
qed


lemma decode_loop_returns:
  assumes "\<And>l. stop_predicted D l \<noteq> None"
  shows "\<exists>out. decode_loop D S inference teacher tgt idxs st = Inr out"
proof (induction idxs arbitrary: st)
  case Nil
  show ?case by simp
next
  case (Cons i rest)
  define prev where "prev = (if inference \<or> \<not> teacher i then prenet D i (frame st) else tgt i)"
  obtain r f w l where step: "recurrent_step D i (rnn st) prev = (r, f, w, l)"
    by (cases "recurrent_step D i (rnn st) prev") auto
  obtain b where b: "stop_predicted D l = Some b"
    using assms [of l] by auto
  show ?case
    using step b Cons.IH unfolding prev_def
    by (cases b; cases inference) (auto simp: Let_def)
qed

lemma stop_count_from:
  assumes "\<forall>j<length ls. (stop_predicted D (ls ! j) = Some True) = (i0 \<le> j)"
  shows "stop_count D ls = length ls - i0"
proof -
  have "filter (\<lambda>l. stop_predicted D l = Some True) (take i0 ls) = []"
    using assms by (auto simp: filter_empty_conv in_set_conv_nth)
  moreover have "filter (\<lambda>l. stop_predicted D l = Some True) (drop i0 ls) = drop i0 ls"
    using assms by (auto simp: filter_id_conv in_set_conv_nth)
  moreover have "ls = take i0 ls @ drop i0 ls" by simp
  ultimately have "filter (\<lambda>l. stop_predicted D l = Some True) ls = drop i0 ls"
    by (metis filter_append append_Nil)
  then show ?thesis by (simp add: stop_count_def)
qed

text \<open>
  C3, as the code has it. For a positive \<open>hp.stop_frames\<close>, an inference run that returns
  gives three tensors of one length, at most \<open>max_frames\<close>; it returns early exactly at the
  step that predicts a stop for the \<open>(hp.stop_frames + 1)\<close>-th time, the countdown going
  down only on steps that predict a stop again. When every step from the first stop
  prediction on predicts a stop and the run is shorter than \<open>max_frames\<close>, it has exactly
  \<open>hp.stop_frames\<close> steps after that first one. The run returns whenever the stop logits
  have a truth value.
\<close>

theorem decode_inference_stop:
  fixes D :: "('v::zero, 's) decoder_modules"
  assumes "1 \<le> stop_frames hp"
  shows "(\<forall>out. decode D hp encoded_input input_mask None teacher_forcing_ratio rand speaker language
              = Inr out \<longrightarrow>
            stopped_as_counted D (stop_frames hp) (max_frames_limit D) out
            \<and> (\<forall>i0. length (dec_spectrogram out) < max_frames_limit D
                  \<and> (\<forall>j<length (dec_stop_tokens out).
                        (stop_predicted D (dec_stop_tokens out ! j) = Some True) = (i0 \<le> j))
                  \<longrightarrow> int (length (dec_spectrogram out)) = int i0 + stop_frames hp + 1))
       \<and> ((\<forall>l. stop_predicted D l \<noteq> None) \<longrightarrow>
            (\<exists>out. decode D hp encoded_input input_mask None teacher_forcing_ratio rand speaker language
               = Inr out))"
proof (intro conjI allI impI)
  fix out
  assume ret: "decode D hp encoded_input input_mask None teacher_forcing_ratio rand speaker language
      = Inr out"
  let ?M = "max_frames_limit D"
  define st where "st = \<lparr>frame = (0::'v), rnn = start_state D
                (if multi_language hp
                 then language_embedding D
                        (if multi_speaker hp then speaker_embedding D encoded_input speaker
                         else encoded_input) language
                 else (if multi_speaker hp then speaker_embedding D encoded_input speaker
                       else encoded_input)) input_mask,
              stop_frames_left = - 1, spectrogram = replicate ?M 0,
              alignments = replicate ?M 0, stop_logit_store = replicate ?M 0\<rparr>"
  have run: "decode_loop D (stop_frames hp) True (\<lambda>i. rand i > 1 - teacher_forcing_ratio)
      (\<lambda>i. 0) [0..<?M] st = Inr out"
    using ret by (simp add: decode_def Let_def st_def)
  have inv: "countdown_inv D (stop_frames hp) 0 st"
    by (simp add: countdown_inv_def st_def stop_count_def)
  show counted: "stopped_as_counted D (stop_frames hp) ?M out"
    by (rule decode_loop_inference [OF assms _ _ _ _ inv run]) (simp_all add: st_def)
  fix i0
  assume a: "length (dec_spectrogram out) < ?M
      \<and> (\<forall>j<length (dec_stop_tokens out).
            (stop_predicted D (dec_stop_tokens out ! j) = Some True) = (i0 \<le> j))"
  then have "stop_count D (dec_stop_tokens out) = length (dec_stop_tokens out) - i0"
    using stop_count_from by blast
  moreover have "int (stop_count D (dec_stop_tokens out)) = stop_frames hp + 1"
    and "length (dec_stop_tokens out) = length (dec_spectrogram out)"
    using counted a by (simp_all add: stopped_as_counted_def)
  ultimately show "int (length (dec_spectrogram out)) = int i0 + stop_frames hp + 1"
    using assms by linarith
next
  assume "\<forall>l. stop_predicted D l \<noteq> None"
  then show "\<exists>out. decode D hp encoded_input input_mask None teacher_forcing_ratio rand speaker language
               = Inr out"
    using decode_loop_returns [of D] by (simp add: decode_def Let_def)
qed

lemma steady_run: "decode steady_modules default_params 0 0 None 0 no_draws None None
   = Inr \<lparr>dec_spectrogram = [0, 1, 2, 3, 4, 5, 6, 7],
          dec_stop_tokens = [- 1, - 1, 1, 1, 1, 1, 1, 1],
          dec_alignments = [0, 0, 0, 0, 0, 0, 0, 0]\<rparr>"
  by code_simp

theorem decode_inference_stop_witness:
  "1 \<le> stop_frames default_params
   \<and> decode steady_modules default_params 0 0 None 0 no_draws None None
       = Inr \<lparr>dec_spectrogram = [0, 1, 2, 3, 4, 5, 6, 7],
              dec_stop_tokens = [- 1, - 1, 1, 1, 1, 1, 1, 1],
              dec_alignments = [0, 0, 0, 0, 0, 0, 0, 0]\<rparr>
   \<and> stopped_as_counted steady_modules (stop_frames default_params)
        (max_frames_limit steady_modules)
        \<lparr>dec_spectrogram = [0, 1, 2, 3, 4, 5, 6, 7],
         dec_stop_tokens = [- 1, - 1, 1, 1, 1, 1, 1, 1],
         dec_alignments = [0, 0, 0, 0, 0, 0, 0, 0]\<rparr>"
proof -
  have h: "1 \<le> stop_frames default_params" by (simp add: default_params_def)
  from decode_inference_stop [OF h, of steady_modules 0 0 0 no_draws None None] steady_run h
  show ?thesis by simp
qed

text \<open>
  C3 as stated fails. The decoder \<open>transient_modules\<close> predicts a stop at step 0 and never
  again; with \<open>hp.stop_frames = 5\<close> and a cap of 10 frames the run has all 10 steps, where
  "within \<open>hp.stop_frames + 1\<close> additional steps" allows at most \<open>1 + 6\<close>.
\<close>

theorem decode_grace_counterexample:
  "decode transient_modules default_params 0 0 None 0 no_draws None None
     = Inr \<lparr>dec_spectrogram = [0, 1, 2, 3, 4, 5, 6, 7, 8, 9],
            dec_stop_tokens = [1, - 1, - 1, - 1, - 1, - 1, - 1, - 1, - 1, - 1],
            dec_alignments = [0, 0, 0, 0, 0, 0, 0, 0, 0, 0]\<rparr>
   \<and> stop_predicted transient_modules 1 = Some True
   \<and> stop_frames default_params = 5
   \<and> max_frames_limit transient_modules = 10
   \<and> \<not> (10 \<le> min (1 + (stop_frames default_params + 1)) (int (max_frames_limit transient_modules)))"
  by (intro conjI; code_simp)

section \<open>Lemmas on the construction of the dataset\<close>

lemma read_meta_appends:
  "read_meta langs meta_lines us its = Inr (us', its') \<Longrightarrow>
   \<exists>new. us' = us @ map item_speaker new \<and> its' = its @ new
         \<and> (\<forall>it\<in>set new. item_language it \<in> set langs)"
proof (induction meta_lines arbitrary: us its)
  case Nil
  then show ?case by simp
next
  case (Cons l rest)
  show ?case
  proof (cases "parse_line l")
    case (Inl e)
    with Cons.prems show ?thesis by (simp add: exn_bind_def)
  next
    case (Inr it)
    show ?thesis
    proof (cases "item_language it \<in> set langs")
      case True
      with Cons.prems Inr
      have "read_meta langs rest (us @ [item_speaker it]) (its @ [it]) = Inr (us', its')"
        by (simp add: exn_bind_def)
      from Cons.IH [OF this] obtain new where
        "us' = (us @ [item_speaker it]) @ map item_speaker new" "its' = (its @ [it]) @ new"
        "\<forall>x\<in>set new. item_language x \<in> set langs" by blast
      with True show ?thesis by (intro exI [of _ "it # new"]) simp
    next
      case False
      with Cons.prems Inr have "read_meta langs rest us its = Inr (us', its')"
        by (simp add: exn_bind_def)
      from Cons.IH [OF this] show ?thesis .
    qed
  qed
qed

lemma list_index_found:
  "x \<in> set xs \<Longrightarrow> \<exists>n. list_index xs x = Inr n \<and> n < length xs \<and> xs ! n = x"
proof (induction xs)
  case Nil
  then show ?case by simp
next
  case (Cons y ys)
  show ?case
  proof (cases "y = x")
    case True
    then show ?thesis by simp
  next
    case False
    with Cons.prems have "x \<in> set ys" by simp
    from Cons.IH [OF this] obtain n where "list_index ys x = Inr n" "n < length ys" "ys ! n = x"
      by blast
    with False show ?thesis by (simp add: exn_bind_def)
  qed
qed

lemma exn_map_all:
  assumes "\<forall>x\<in>set xs. \<exists>y. f x = Inr y \<and> P x y"
  shows "\<exists>ys. exn_map f xs = Inr ys \<and> length ys = length xs
            \<and> (\<forall>i<length xs. P (xs ! i) (ys ! i))"
  using assms
proof (induction xs)
  case Nil
  then show ?case by simp
next
  case (Cons x xs)
  then obtain y where y: "f x = Inr y" "P x y" by auto
  from Cons obtain ys where ys: "exn_map f xs = Inr ys" "length ys = length xs"
    "\<forall>i<length xs. P (xs ! i) (ys ! i)" by auto
  have "\<forall>i<length (x # xs). P ((x # xs) ! i) ((y # ys) ! i)"
    using y(2) ys(3) by (auto simp: nth_Cons split: nat.splits)
  with y ys show ?case by (simp add: exn_bind_def)
qed

lemma clean_item_keeps:
  "item_speaker (clean_item T hp it) = item_speaker it"
  "item_language (clean_item T hp it) = item_language it"
  by (simp_all add: clean_item_def Let_def)

lemma convert_item_ids:
  assumes "item_speaker it \<in> set us" and "item_language it \<in> set (languages hp)"
  shows "\<exists>c. convert_item T hp us it = Inr c
           \<and> item_speaker c < length us \<and> us ! item_speaker c = item_speaker it
           \<and> item_language c < length (languages hp)
           \<and> languages hp ! item_language c = item_language it"
proof -
  from list_index_found [OF assms(1)] obtain n where
    n: "list_index us (item_speaker it) = Inr n" "n < length us" "us ! n = item_speaker it"
    by blast
  from list_index_found [OF assms(2)] obtain k where
    k: "list_index (languages hp) (item_language it) = Inr k" "k < length (languages hp)"
    "languages hp ! k = item_language it"
    by blast
  from n k show ?thesis by (simp add: convert_item_def exn_bind_def)
qed

lemma convert_item_fields:
  assumes "item_speaker it \<in> set us" and "item_language it \<in> set (languages hp)"
  shows "\<exists>c. convert_item T hp us it = Inr c
           \<and> item_speaker c < length us \<and> us ! item_speaker c = item_speaker it
           \<and> item_language c < length (languages hp)
           \<and> languages hp ! item_language c = item_language it
           \<and> item_id c = item_id it \<and> item_audio c = item_audio it
           \<and> item_spectrogram c = item_spectrogram it
           \<and> item_linear_spectrogram c = item_linear_spectrogram it
           \<and> item_text c = to_sequence T hp (item_text it) False
           \<and> item_phonemes c = to_sequence T hp (item_phonemes it) True"
proof -
  from list_index_found [OF assms(1)] obtain n where
    n: "list_index us (item_speaker it) = Inr n" "n < length us" "us ! n = item_speaker it"
    by blast
  from list_index_found [OF assms(2)] obtain k where
    k: "list_index (languages hp) (item_language it) = Inr k" "k < length (languages hp)"
    "languages hp ! k = item_language it"
    by blast
  from n k show ?thesis by (simp add: convert_item_def exn_bind_def)
qed

lemma clean_item_paths:
  "item_id (clean_item T hp it) = item_id it"
  "item_audio (clean_item T hp it) = item_audio it"
  "item_spectrogram (clean_item T hp it) = item_spectrogram it"
  "item_linear_spectrogram (clean_item T hp it) = item_linear_spectrogram it"
  by (simp_all add: clean_item_def Let_def)

section \<open>Lines of the meta-file with too few or too many fields\<close>

lemma split_on_nonempty: "split_on c s \<noteq> []"
  by (induction s) (auto simp: Let_def)

lemma length_split_on: "length (split_on c s) = Suc (length (filter (\<lambda>x. x = c) s))"
proof (induction s)
  case Nil
  show ?case by simp
next
  case (Cons x xs)
  have "split_on c xs \<noteq> []" by (rule split_on_nonempty)
  then have "length (tl (split_on c xs)) = length (filter (\<lambda>x. x = c) xs)"
    using Cons.IH by simp
  then show ?case using Cons.IH by (simp add: Let_def)
qed

lemma filter_butlast_le:
  "length (filter P (butlast s)) \<le> length (filter P s)
   \<and> length (filter P s) \<le> Suc (length (filter P (butlast s)))"
proof (cases "s = []")
  case True
  then show ?thesis by simp
next
  case False
  then have "s = butlast s @ [last s]" by simp
  then have "filter P s = filter P (butlast s) @ filter P [last s]"
    by (metis filter_append)
  then show ?thesis by simp
qed

lemma field_count_butlast:
  "field_count (butlast line) \<le> field_count line
   \<and> field_count line \<le> Suc (field_count (butlast line))"
  using filter_butlast_le [of "\<lambda>x. x = CHR ''|''" line]
  by (simp add: field_count_def length_split_on)

lemma parse_line_short:
  assumes "field_count (butlast line) < 8"
  shows "parse_line line = Inl IndexError"
  using assms
  by (simp add: parse_line_def field_count_def py_index_def exn_bind_def Let_def)

lemma parse_line_long:
  assumes "8 \<le> field_count (butlast line)"
  shows "parse_line line = Inr (item_of_tokens (split_on CHR ''|'' (butlast line)))"
  using assms
  by (simp add: parse_line_def field_count_def py_index_def exn_bind_def Let_def
      item_of_tokens_def split_on_nonempty)

lemma parse_line_error: "parse_line line = Inl e \<Longrightarrow> e = IndexError"
  by (cases "field_count (butlast line) < 8") (simp_all add: parse_line_short parse_line_long)

lemma read_meta_error:
  "read_meta langs meta_lines us its = Inl e \<Longrightarrow> e = IndexError"
proof (induction meta_lines arbitrary: us its)
  case Nil
  then show ?case by simp
next
  case (Cons l rest)
  then show ?case
    by (cases "parse_line l")
      (auto simp: exn_bind_def dest: parse_line_error split: if_splits)
qed

lemma read_meta_short:
  assumes "l \<in> set meta_lines" and "field_count (butlast l) < 8"
  shows "read_meta langs meta_lines us its = Inl IndexError"
  using assms
proof (induction meta_lines arbitrary: us its)
  case Nil
  then show ?case by simp
next
  case (Cons x rest)
  show ?case
  proof (cases "parse_line x")
    case (Inl e)
    then show ?thesis using parse_line_error [OF Inl] by (simp add: exn_bind_def)
  next
    case (Inr it)
    then have "x \<noteq> l" using Cons.prems(2) parse_line_short by fastforce
    then have "l \<in> set rest" using Cons.prems(1) by simp
    then show ?thesis using Cons.IH Cons.prems(2) Inr by (simp add: exn_bind_def)
  qed
qed

lemma read_meta_full:
  assumes "\<forall>line\<in>set meta_lines. 8 \<le> field_count (butlast line)"
  shows "read_meta langs meta_lines us its =
           Inr (us @ map item_speaker (accepted_items langs meta_lines),
                its @ accepted_items langs meta_lines)"
  using assms
proof (induction meta_lines arbitrary: us its)
  case Nil
  show ?case by (simp add: accepted_items_def)
next
  case (Cons l rest)
  have p: "parse_line l = Inr (item_of_tokens (split_on CHR ''|'' (butlast l)))"
    using Cons.prems by (simp add: parse_line_long)
  have r: "\<forall>line\<in>set rest. 8 \<le> field_count (butlast line)" using Cons.prems by simp
  show ?case
    by (simp add: p exn_bind_def Cons.IH [OF r] accepted_items_def)
qed

text \<open>
  C8. If some line \<open>l\<close> of the meta-file has fewer than 8 fields, counted with or without
  its last character, \<open>__init__\<close> raises \<open>IndexError\<close>, whatever the accepted languages are.
  A line \<open>m\<close> with more than 8 fields parses to the item of its first 8 tokens, and the
  loop appends that item when its language is accepted, as for a line of 8 fields. So on a
  meta-file \<open>full_lines\<close> without a short line the loop ends with the items of all the
  lines of an accepted language, in the order of the file, each made of the first 8
  tokens of its line, and \<open>__init__\<close> is the conversion of exactly these items: when
  \<open>list(unique_speakers)\<close> lists their speakers it returns one item for each of them, long
  lines included, with the id and the three paths of the line, the sequences of its
  cleaned text and phonemes, and the indices of its speaker and language.
\<close>

theorem manifest_field_count:
  "(l \<in> set meta_lines \<and> (field_count (butlast l) < 8 \<or> field_count l < 8) \<longrightarrow>
      dataset_init T list_of_set hp meta_lines = Inl IndexError)
   \<and> (8 < field_count (butlast m) \<or> 8 < field_count m \<longrightarrow>
        parse_line m = Inr (item_of_tokens (split_on CHR ''|'' (butlast m)))
        \<and> read_meta langs (m # rest) unique_speakers items =
            (if item_language (item_of_tokens (split_on CHR ''|'' (butlast m))) \<in> set langs
             then read_meta langs rest
                    (unique_speakers @ [item_speaker (item_of_tokens (split_on CHR ''|'' (butlast m)))])
                    (items @ [item_of_tokens (split_on CHR ''|'' (butlast m))])
             else read_meta langs rest unique_speakers items))
   \<and> ((\<forall>line\<in>set full_lines. 8 \<le> field_count (butlast line)) \<longrightarrow>
        read_meta (languages hp) full_lines [] [] =
          Inr (map item_speaker (accepted_items (languages hp) full_lines),
               accepted_items (languages hp) full_lines)
        \<and> dataset_init T list_of_set hp full_lines =
            exn_map (convert_item T hp
                       (list_of_set (map item_speaker (accepted_items (languages hp) full_lines))))
              (map (clean_item T hp) (accepted_items (languages hp) full_lines))
        \<and> (set_listing (map item_speaker (accepted_items (languages hp) full_lines))
              (list_of_set (map item_speaker (accepted_items (languages hp) full_lines))) \<longrightarrow>
            (\<exists>kept. dataset_init T list_of_set hp full_lines = Inr kept
               \<and> length kept = length (accepted_items (languages hp) full_lines)
               \<and> (\<forall>i<length kept.
                    item_id (kept ! i) = item_id (accepted_items (languages hp) full_lines ! i)
                    \<and> list_of_set (map item_speaker (accepted_items (languages hp) full_lines))
                        ! item_speaker (kept ! i)
                      = item_speaker (accepted_items (languages hp) full_lines ! i)
                    \<and> languages hp ! item_language (kept ! i)
                      = item_language (accepted_items (languages hp) full_lines ! i)
                    \<and> item_audio (kept ! i)
                      = item_audio (accepted_items (languages hp) full_lines ! i)
                    \<and> item_spectrogram (kept ! i)
                      = item_spectrogram (accepted_items (languages hp) full_lines ! i)
                    \<and> item_linear_spectrogram (kept ! i)
                      = item_linear_spectrogram (accepted_items (languages hp) full_lines ! i)
                    \<and> item_text (kept ! i)
                      = to_sequence T hp
                          (item_text (clean_item T hp
                             (accepted_items (languages hp) full_lines ! i))) False
                    \<and> item_phonemes (kept ! i)
                      = to_sequence T hp
                          (item_phonemes (clean_item T hp
                             (accepted_items (languages hp) full_lines ! i))) True))))"
proof (intro conjI impI)
  assume a: "l \<in> set meta_lines \<and> (field_count (butlast l) < 8 \<or> field_count l < 8)"
  then have "field_count (butlast l) < 8" using field_count_butlast [of l] by auto
  with a have "read_meta (languages hp) meta_lines [] [] = Inl IndexError"
    using read_meta_short by blast
  then show "dataset_init T list_of_set hp meta_lines = Inl IndexError"
    by (simp add: dataset_init_def exn_bind_def)
next
  assume "8 < field_count (butlast m) \<or> 8 < field_count m"
  then have "8 \<le> field_count (butlast m)" using field_count_butlast [of m] by auto
  then show p: "parse_line m = Inr (item_of_tokens (split_on CHR ''|'' (butlast m)))"
    by (rule parse_line_long)
  show "read_meta langs (m # rest) unique_speakers items =
            (if item_language (item_of_tokens (split_on CHR ''|'' (butlast m))) \<in> set langs
             then read_meta langs rest
                    (unique_speakers @ [item_speaker (item_of_tokens (split_on CHR ''|'' (butlast m)))])
                    (items @ [item_of_tokens (split_on CHR ''|'' (butlast m))])
             else read_meta langs rest unique_speakers items)"
    by (simp add: p exn_bind_def)
next
  let ?acc = "accepted_items (languages hp) full_lines"
  let ?us = "list_of_set (map item_speaker ?acc)"
  let ?cleaned = "map (clean_item T hp) ?acc"
  assume full: "\<forall>line\<in>set full_lines. 8 \<le> field_count (butlast line)"
  show r: "read_meta (languages hp) full_lines [] [] = Inr (map item_speaker ?acc, ?acc)"
    using read_meta_full [OF full, of "languages hp" "[]" "[]"] by simp
  show d: "dataset_init T list_of_set hp full_lines = exn_map (convert_item T hp ?us) ?cleaned"
    by (simp add: dataset_init_def r exn_bind_def)
  assume listing: "set_listing (map item_speaker ?acc) ?us"
  let ?P = "\<lambda>it c. item_id c = item_id it
      \<and> ?us ! item_speaker c = item_speaker it
      \<and> languages hp ! item_language c = item_language it
      \<and> item_audio c = item_audio it
      \<and> item_spectrogram c = item_spectrogram it
      \<and> item_linear_spectrogram c = item_linear_spectrogram it
      \<and> item_text c = to_sequence T hp (item_text it) False
      \<and> item_phonemes c = to_sequence T hp (item_phonemes it) True"
  have set_us: "set ?us = item_speaker ` set ?acc"
    using listing by (simp add: set_listing_def)
  have "\<forall>it\<in>set ?cleaned. \<exists>c. convert_item T hp ?us it = Inr c \<and> ?P it c"
  proof
    fix it assume "it \<in> set ?cleaned"
    then obtain r where r: "r \<in> set ?acc" "it = clean_item T hp r" by auto
    then have "item_speaker it \<in> set ?us" "item_language it \<in> set (languages hp)"
      using set_us by (auto simp: clean_item_keeps accepted_items_def)
    from convert_item_fields [OF this, of T]
    show "\<exists>c. convert_item T hp ?us it = Inr c \<and> ?P it c" by blast
  qed
  from exn_map_all [of ?cleaned "convert_item T hp ?us" ?P, OF this]
  obtain kept where kept: "exn_map (convert_item T hp ?us) ?cleaned = Inr kept"
    "length kept = length ?acc"
    "\<forall>i<length ?acc. ?P (?cleaned ! i) (kept ! i)"
    by auto
  have "\<forall>i<length kept. ?P (clean_item T hp (?acc ! i)) (kept ! i)"
    using kept(2,3) by simp
  then have "\<forall>i<length kept.
      item_id (kept ! i) = item_id (?acc ! i)
      \<and> ?us ! item_speaker (kept ! i) = item_speaker (?acc ! i)
      \<and> languages hp ! item_language (kept ! i) = item_language (?acc ! i)
      \<and> item_audio (kept ! i) = item_audio (?acc ! i)
      \<and> item_spectrogram (kept ! i) = item_spectrogram (?acc ! i)
      \<and> item_linear_spectrogram (kept ! i) = item_linear_spectrogram (?acc ! i)
      \<and> item_text (kept ! i) = to_sequence T hp (item_text (clean_item T hp (?acc ! i))) False
      \<and> item_phonemes (kept ! i)
          = to_sequence T hp (item_phonemes (clean_item T hp (?acc ! i))) True"
    by (simp add: clean_item_keeps clean_item_paths)
  with kept(1,2) d
  show "\<exists>kept. dataset_init T list_of_set hp full_lines = Inr kept
               \<and> length kept = length ?acc
               \<and> (\<forall>i<length kept.
                    item_id (kept ! i) = item_id (?acc ! i)
                    \<and> ?us ! item_speaker (kept ! i) = item_speaker (?acc ! i)
                    \<and> languages hp ! item_language (kept ! i) = item_language (?acc ! i)
                    \<and> item_audio (kept ! i) = item_audio (?acc ! i)
                    \<and> item_spectrogram (kept ! i) = item_spectrogram (?acc ! i)
                    \<and> item_linear_spectrogram (kept ! i) = item_linear_spectrogram (?acc ! i)
                    \<and> item_text (kept ! i)
                      = to_sequence T hp (item_text (clean_item T hp (?acc ! i))) False
                    \<and> item_phonemes (kept ! i)
                      = to_sequence T hp (item_phonemes (clean_item T hp (?acc ! i))) True)"
    by (intro exI [of _ kept]) simp
qed

theorem manifest_field_count_witness:
  "short_line \<in> set [long_line, short_line]
   \<and> field_count short_line < 8
   \<and> dataset_init plain_text_utils first_seen default_params [long_line, short_line]
       = Inl IndexError
   \<and> 8 < field_count long_line
   \<and> parse_line long_line =
       Inr \<lparr>item_id = ''7'', item_speaker = ''bob'', item_language = ''en-us'',
            item_audio = ''a.wav'', item_spectrogram = ''a.npy'',
            item_linear_spectrogram = ''b.npy'', item_text = ''hi'', item_phonemes = ''h''\<rparr>
   \<and> read_meta [''en-us''] [long_line] [] [] =
       Inr ([''bob''],
            [\<lparr>item_id = ''7'', item_speaker = ''bob'', item_language = ''en-us'',
              item_audio = ''a.wav'', item_spectrogram = ''a.npy'',
              item_linear_spectrogram = ''b.npy'', item_text = ''hi'', item_phonemes = ''h''\<rparr>])
   \<and> list_all (\<lambda>line. 8 \<le> field_count (butlast line)) full_manifest
   \<and> read_meta (languages default_params) full_manifest [] [] =
       Inr ([''bob'', ''amy''],
            [\<lparr>item_id = ''7'', item_speaker = ''bob'', item_language = ''en-us'',
              item_audio = ''a.wav'', item_spectrogram = ''a.npy'',
              item_linear_spectrogram = ''b.npy'', item_text = ''hi'', item_phonemes = ''h''\<rparr>,
             \<lparr>item_id = ''1'', item_speaker = ''amy'', item_language = ''en-us'',
              item_audio = ''c.wav'', item_spectrogram = ''c.npy'',
              item_linear_spectrogram = ''d.npy'', item_text = ''ho.'', item_phonemes = ''o''\<rparr>])
   \<and> set_listing [''bob'', ''amy''] (first_seen [''bob'', ''amy''])
   \<and> (\<exists>kept. dataset_init plain_text_utils first_seen default_params full_manifest = Inr kept
         \<and> length kept = 2
         \<and> item_id (kept ! 0) = ''7'' \<and> item_audio (kept ! 0) = ''a.wav''
         \<and> item_spectrogram (kept ! 0) = ''a.npy''
         \<and> item_linear_spectrogram (kept ! 0) = ''b.npy''
         \<and> item_text (kept ! 0) = [104, 105] \<and> item_phonemes (kept ! 0) = [104]
         \<and> first_seen [''bob'', ''amy''] ! item_speaker (kept ! 0) = ''bob''
         \<and> item_id (kept ! 1) = ''1'')"
proof -
  let ?item7 = "\<lparr>item_id = ''7'', item_speaker = ''bob'', item_language = ''en-us'',
              item_audio = ''a.wav'', item_spectrogram = ''a.npy'',
              item_linear_spectrogram = ''b.npy'', item_text = ''hi'', item_phonemes = ''h''\<rparr>"
  let ?item1 = "\<lparr>item_id = ''1'', item_speaker = ''amy'', item_language = ''en-us'',
              item_audio = ''c.wav'', item_spectrogram = ''c.npy'',
              item_linear_spectrogram = ''d.npy'', item_text = ''ho.'', item_phonemes = ''o''\<rparr>"
  note inst = manifest_field_count [of short_line "[long_line, short_line]" plain_text_utils
      first_seen default_params long_line "[''en-us'']" "[]" "[]" "[]" full_manifest]
  have s: "field_count short_line < 8" by code_simp
  have l: "8 < field_count long_line" by code_simp
  have t: "item_of_tokens (split_on CHR ''|'' (butlast long_line)) = ?item7"
    by code_simp
  have f: "list_all (\<lambda>line. 8 \<le> field_count (butlast line)) full_manifest" by code_simp
  have acc: "accepted_items (languages default_params) full_manifest = [?item7, ?item1]"
    by code_simp
  have listing: "set_listing [''bob'', ''amy''] (first_seen [''bob'', ''amy''])"
    by (simp add: set_listing_def first_seen_def)
  have c7: "clean_item plain_text_utils default_params ?item7 = ?item7" by code_simp
  have seq: "to_sequence plain_text_utils default_params ''hi'' False = [104, 105]"
    "to_sequence plain_text_utils default_params ''h'' True = [104]"
    by (simp_all add: plain_text_utils_def)
  have w1: "dataset_init plain_text_utils first_seen default_params [long_line, short_line]
       = Inl IndexError"
    using inst [THEN conjunct1] s by simp
  have w2: "parse_line long_line = Inr ?item7"
    "read_meta [''en-us''] [long_line] [] [] = Inr ([''bob''], [?item7])"
    using inst [THEN conjunct2, THEN conjunct1] l by (simp_all add: t del: read_meta.simps(2))
  note full = inst [THEN conjunct2, THEN conjunct2, THEN mp, OF f [unfolded list_all_iff]]
  have w3: "read_meta (languages default_params) full_manifest [] [] =
       Inr ([''bob'', ''amy''], [?item7, ?item1])"
    using full [THEN conjunct1] by (simp add: acc)
  from full [THEN conjunct2, THEN conjunct2] listing
  obtain kept where k:
    "dataset_init plain_text_utils first_seen default_params full_manifest = Inr kept"
    "length kept = 2"
    "item_id (kept ! 0) = ''7''" "item_audio (kept ! 0) = ''a.wav''"
    "item_spectrogram (kept ! 0) = ''a.npy''"
    "item_linear_spectrogram (kept ! 0) = ''b.npy''"
    "item_text (kept ! 0) = [104, 105]" "item_phonemes (kept ! 0) = [104]"
    "first_seen [''bob'', ''amy''] ! item_speaker (kept ! 0) = ''bob''"
    "item_id (kept ! 1) = ''1''"
    by (auto simp: acc c7 seq)
  from k have w4: "\<exists>kept. dataset_init plain_text_utils first_seen default_params full_manifest = Inr kept
         \<and> length kept = 2
         \<and> item_id (kept ! 0) = ''7'' \<and> item_audio (kept ! 0) = ''a.wav''
         \<and> item_spectrogram (kept ! 0) = ''a.npy''
         \<and> item_linear_spectrogram (kept ! 0) = ''b.npy''
         \<and> item_text (kept ! 0) = [104, 105] \<and> item_phonemes (kept ! 0) = [104]
         \<and> first_seen [''bob'', ''amy''] ! item_speaker (kept ! 0) = ''bob''
         \<and> item_id (kept ! 1) = ''1''"
    by blast
  from s l w1 w2 f w3 listing w4 show ?thesis by simp
qed
section \<open>Loading a spectrogram\<close>

text \<open>
  C7. Once the array has been read from the cache or computed, \<open>load_spectrogram\<close> raises
  the assertion error exactly when the first dimension of the array is not the configured
  one (\<open>num_mels\<close> for a mel spectrogram, \<open>num_fft // 2 + 1\<close> for a linear one). Otherwise it
  returns the array itself, or what \<open>audio.normalize_spectrogram\<close> makes of it; the shape
  is then that of the array, provided the normalisation keeps the shape.
\<close>

theorem load_spectrogram_assertion:
  assumes "obtain_spectrogram X hp root_dir audio_path spectrogram_path is_mel = Inr loaded"
  shows "(load_spectrogram X hp root_dir audio_path spectrogram_path normalize_flag is_mel
            = Inl AssertionError
          \<longleftrightarrow> length loaded \<noteq> (if is_mel then num_mels hp else num_fft hp div 2 + 1))
       \<and> (length loaded = (if is_mel then num_mels hp else num_fft hp div 2 + 1) \<longrightarrow>
            load_spectrogram X hp root_dir audio_path spectrogram_path normalize_flag is_mel
              = Inr (if normalize_flag then audio_normalize_spectrogram X hp loaded is_mel
                     else loaded))
       \<and> (\<forall>result. load_spectrogram X hp root_dir audio_path spectrogram_path normalize_flag is_mel
              = Inr result
            \<and> (normalize_flag \<longrightarrow> np_shape (audio_normalize_spectrogram X hp loaded is_mel)
                  = np_shape loaded)
            \<longrightarrow> np_shape result = np_shape loaded)"
  using assms
  by (auto simp: load_spectrogram_def exn_bind_def np_shape_def Let_def split: if_splits)

theorem load_spectrogram_assertion_witness:
  "obtain_spectrogram example_externals small_params ''root'' ''a.wav'' ''a.npy'' True
     = Inr [[1, 2, 3], [4, 5, 6]]
   \<and> load_spectrogram example_externals small_params ''root'' ''a.wav'' ''a.npy'' True True
       = Inr [[0, 1, 2], [3, 4, 5]]
   \<and> np_shape [[0, 1, 2], [3, 4, 5 :: int]] = np_shape [[1, 2, 3], [4, 5, 6 :: int]]
   \<and> load_spectrogram example_externals small_params ''root'' ''a.wav'' ''a.npy'' True False
       = Inl AssertionError"
proof -
  have m: "obtain_spectrogram example_externals small_params ''root'' ''a.wav'' ''a.npy'' True
     = Inr [[1, 2, 3], [4, 5, 6]]"
    by (simp add: obtain_spectrogram_def example_externals_def small_params_def default_params_def)
  have l: "obtain_spectrogram example_externals small_params ''root'' ''a.wav'' ''a.npy'' False
     = Inr [[1, 2, 3], [4, 5, 6]]"
    by (simp add: obtain_spectrogram_def example_externals_def small_params_def default_params_def)
  have n: "audio_normalize_spectrogram example_externals small_params [[1, 2, 3], [4, 5, 6]] True
     = [[0, 1, 2], [3, 4, 5]]"
    by (simp add: example_externals_def)
  have d: "num_mels small_params = 2" "num_fft small_params = 4"
    by (simp_all add: small_params_def)
  have w1: "load_spectrogram example_externals small_params ''root'' ''a.wav'' ''a.npy'' True True
       = Inr [[0, 1, 2], [3, 4, 5]]"
    using load_spectrogram_assertion [OF m, of True, THEN conjunct2, THEN conjunct1]
    by (simp add: d n)
  have w2: "load_spectrogram example_externals small_params ''root'' ''a.wav'' ''a.npy'' True False
       = Inl AssertionError"
    using load_spectrogram_assertion [OF l, of True, THEN conjunct1]
    by (simp add: d)
  have w3: "np_shape [[0, 1, 2], [3, 4, 5 :: int]] = np_shape [[1, 2, 3], [4, 5, 6 :: int]]"
    by (simp add: np_shape_def)
  from m w1 w2 w3 show ?thesis by blast
qed

section \<open>Writing the meta-file\<close>

text \<open>
  C9. A call of \<open>create_meta_file\<close> that completes leaves the configuration as it found it:
  the whole of \<open>hp\<close>, \<open>sample_rate\<close> and \<open>num_fft\<close> included. In between, the body ran under
  the configuration that differs from it in \<open>sample_rate\<close> and \<open>num_fft\<close> only, which hold
  the two arguments.
\<close>

theorem create_meta_file_restores:
  assumes "create_meta_file X hp dataset_name dataset_root_dir output_metafile_name
             audio_sample_rate num_fft_freqs spectrograms phonemes = (hp', Inr files)"
  shows "hp' = hp
       \<and> build_meta X (hp\<lparr>sample_rate := audio_sample_rate, num_fft := num_fft_freqs\<rparr>)
           dataset_name dataset_root_dir output_metafile_name spectrograms phonemes = Inr files"
  using assms
  by (auto simp: create_meta_file_def Let_def split: sum.splits)

theorem create_meta_file_restores_witness:
  "create_meta_file example_externals small_params ''ljspeech'' ''root'' ''train.txt'' 16000 2
     True True
     = (small_params,
        Inr \<lparr>made_dirs = [''root/spectrograms'', ''root/linear_spectrograms''],
             metafile_path = ''root/train.txt'',
             saved_arrays =
               [(''root/spectrograms/000000.npy'', [[16000, 7], [16000, 7]]),
                (''root/linear_spectrograms/000000.npy'', [[16000, 7], [16000, 7]])],
             metafile_lines =
               [''000000|amy|en-us|a.wav|spectrograms/000000.npy|linear_spectrograms/000000.npy|hi|ih'']\<rparr>)
   \<and> sample_rate small_params = 22050 \<and> num_fft small_params = 4"
proof -
  have run: "create_meta_file example_externals small_params ''ljspeech'' ''root'' ''train.txt''
     16000 2 True True
     = (small_params,
        Inr \<lparr>made_dirs = [''root/spectrograms'', ''root/linear_spectrograms''],
             metafile_path = ''root/train.txt'',
             saved_arrays =
               [(''root/spectrograms/000000.npy'', [[16000, 7], [16000, 7]]),
                (''root/linear_spectrograms/000000.npy'', [[16000, 7], [16000, 7]])],
             metafile_lines =
               [''000000|amy|en-us|a.wav|spectrograms/000000.npy|linear_spectrograms/000000.npy|hi|ih'']\<rparr>)"
    by code_simp
  from create_meta_file_restores [OF run] run
  show ?thesis by (simp add: small_params_def default_params_def)
qed

text \<open>A call that raises skips the restoring assignments.\<close>

lemma create_meta_file_raises:
  assumes "create_meta_file X hp dataset_name dataset_root_dir output_metafile_name
             audio_sample_rate num_fft_freqs spectrograms phonemes = (hp', Inl e)"
  shows "hp' = hp\<lparr>sample_rate := audio_sample_rate, num_fft := num_fft_freqs\<rparr>"
  using assms
  by (auto simp: create_meta_file_def Let_def split: sum.splits)


section \<open>Speaker ids\<close>

text \<open>
  C5, as the code has it. When the meta-file parses and \<open>list(unique_speakers)\<close> lists the
  set of the accepted speakers without repetition, \<open>__init__\<close> returns one item for each
  accepted record, in the order of the file; the speaker id of an item is the position of
  its speaker's name in that listing, so ids are below the number of distinct accepted
  speakers, and two items have the same id exactly when they have the same speaker. Any
  construction that iterates the set in the same order returns the same items.
\<close>

theorem speaker_ids_follow_set_order:
  assumes "read_meta (languages hp) meta_lines [] [] = Inr (added, accepted)"
    and "set_listing added (list_of_set added)"
  shows "\<exists>items. dataset_init T list_of_set hp meta_lines = Inr items
     \<and> length items = length accepted
     \<and> length (list_of_set added) = card (item_speaker ` set accepted)
     \<and> (\<forall>i<length accepted.
           item_speaker (items ! i) < length (list_of_set added)
           \<and> list_of_set added ! item_speaker (items ! i) = item_speaker (accepted ! i))
     \<and> (\<forall>i<length accepted. \<forall>j<length accepted.
           (item_speaker (items ! i) = item_speaker (items ! j))
           = (item_speaker (accepted ! i) = item_speaker (accepted ! j)))
     \<and> (\<forall>other_order. other_order added = list_of_set added \<longrightarrow>
           dataset_init T other_order hp meta_lines = Inr items)"
proof -
  let ?us = "list_of_set added"
  let ?cleaned = "map (clean_item T hp) accepted"
  let ?P = "\<lambda>it c. item_speaker c < length ?us \<and> ?us ! item_speaker c = item_speaker it"
  from read_meta_appends [OF assms(1)] have
    added: "added = map item_speaker accepted"
    and langs: "\<forall>it\<in>set accepted. item_language it \<in> set (languages hp)"
    by auto
  have dist: "distinct ?us" and set_us: "set ?us = set added"
    using assms(2) by (simp_all add: set_listing_def)
  have "\<forall>it\<in>set ?cleaned. \<exists>c. convert_item T hp ?us it = Inr c \<and> ?P it c"
  proof
    fix it assume "it \<in> set ?cleaned"
    then obtain r where r: "r \<in> set accepted" "it = clean_item T hp r" by auto
    then have "item_speaker it \<in> set ?us" "item_language it \<in> set (languages hp)"
      using set_us added langs by (auto simp: clean_item_keeps)
    from convert_item_ids [OF this, of T]
    show "\<exists>c. convert_item T hp ?us it = Inr c \<and> ?P it c" by blast
  qed
  from exn_map_all [of ?cleaned "convert_item T hp ?us" ?P, OF this]
  obtain items where items: "exn_map (convert_item T hp ?us) ?cleaned = Inr items"
    "length items = length accepted"
    "\<forall>i<length accepted. ?P (?cleaned ! i) (items ! i)"
    by auto
  have init: "dataset_init T list_of_set hp meta_lines = Inr items"
    using assms(1) items(1) by (simp add: dataset_init_def exn_bind_def)
  have ids: "\<forall>i<length accepted.
           item_speaker (items ! i) < length ?us
           \<and> ?us ! item_speaker (items ! i) = item_speaker (accepted ! i)"
    using items(3) by (simp add: clean_item_keeps)
  have card: "length ?us = card (item_speaker ` set accepted)"
    using dist set_us added by (metis distinct_card set_map)
  have inj: "\<forall>i<length accepted. \<forall>j<length accepted.
           (item_speaker (items ! i) = item_speaker (items ! j))
           = (item_speaker (accepted ! i) = item_speaker (accepted ! j))"
  proof (intro allI impI)
    fix i j assume i: "i < length accepted" and j: "j < length accepted"
    from ids i j have a: "item_speaker (items ! i) < length ?us"
      "?us ! item_speaker (items ! i) = item_speaker (accepted ! i)"
      "item_speaker (items ! j) < length ?us"
      "?us ! item_speaker (items ! j) = item_speaker (accepted ! j)" by auto
    show "(item_speaker (items ! i) = item_speaker (items ! j))
           = (item_speaker (accepted ! i) = item_speaker (accepted ! j))"
      using a dist by (metis nth_eq_iff_index_eq)
  qed
  have same: "\<forall>other_order. other_order added = list_of_set added \<longrightarrow>
           dataset_init T other_order hp meta_lines = Inr items"
    using assms(1) items(1) by (simp add: dataset_init_def exn_bind_def)
  from init items(2) card ids inj same show ?thesis by blast
qed

theorem speaker_ids_follow_set_order_witness:
  "read_meta (languages default_params) two_speakers [] [] =
     Inr ([''bob'', ''amy''],
          [\<lparr>item_id = ''0'', item_speaker = ''bob'', item_language = ''en-us'',
            item_audio = ''a.wav'', item_spectrogram = ''a.npy'',
            item_linear_spectrogram = ''b.npy'', item_text = ''hi'', item_phonemes = ''h''\<rparr>,
           \<lparr>item_id = ''1'', item_speaker = ''amy'', item_language = ''en-us'',
            item_audio = ''c.wav'', item_spectrogram = ''c.npy'',
            item_linear_spectrogram = ''d.npy'', item_text = ''ho'', item_phonemes = ''o''\<rparr>])
   \<and> set_listing [''bob'', ''amy''] (late_first [''bob'', ''amy''])
   \<and> (\<exists>items. dataset_init plain_text_utils late_first default_params two_speakers = Inr items
         \<and> length items = 2 \<and> length (late_first [''bob'', ''amy'']) = 2
         \<and> late_first [''bob'', ''amy''] ! item_speaker (items ! 0) = ''bob''
         \<and> late_first [''bob'', ''amy''] ! item_speaker (items ! 1) = ''amy'')"
proof -
  have r: "read_meta (languages default_params) two_speakers [] [] =
     Inr ([''bob'', ''amy''],
          [\<lparr>item_id = ''0'', item_speaker = ''bob'', item_language = ''en-us'',
            item_audio = ''a.wav'', item_spectrogram = ''a.npy'',
            item_linear_spectrogram = ''b.npy'', item_text = ''hi'', item_phonemes = ''h''\<rparr>,
           \<lparr>item_id = ''1'', item_speaker = ''amy'', item_language = ''en-us'',
            item_audio = ''c.wav'', item_spectrogram = ''c.npy'',
            item_linear_spectrogram = ''d.npy'', item_text = ''ho'', item_phonemes = ''o''\<rparr>])"
    by code_simp
  have l: "set_listing [''bob'', ''amy''] (late_first [''bob'', ''amy''])"
    by (simp add: set_listing_def late_first_def insert_commute)
  have n: "length (late_first [''bob'', ''amy'']) = 2"
    by (simp add: late_first_def)
  from speaker_ids_follow_set_order [where list_of_set = late_first and T = plain_text_utils, OF r l]
  obtain items where
    "dataset_init plain_text_utils late_first default_params two_speakers = Inr items"
    "length items = 2"
    "late_first [''bob'', ''amy''] ! item_speaker (items ! 0) = ''bob''"
    "late_first [''bob'', ''amy''] ! item_speaker (items ! 1) = ''amy''"
    by fastforce
  with r l n show ?thesis by blast
qed

text \<open>
  C5 as stated fails. \<open>late_first\<close> and \<open>first_seen\<close> both list the set of the two speakers
  of \<open>two_speakers\<close> without repetition. Under the first, the speaker of the first record
  gets id 1 and the speaker of the second id 0, not the order of first occurrence; under
  the second they get 0 and 1, so two constructions over one meta-file and one
  configuration differ in every speaker id.
\<close>

theorem speaker_ids_counterexample:
  "set_listing [''bob'', ''amy''] (late_first [''bob'', ''amy''])
   \<and> set_listing [''bob'', ''amy''] (first_seen [''bob'', ''amy''])
   \<and> map_sum id (map item_speaker)
        (dataset_init plain_text_utils late_first default_params two_speakers) = Inr [1, 0]
   \<and> map_sum id (map item_speaker)
        (dataset_init plain_text_utils first_seen default_params two_speakers) = Inr [0, 1]"
proof -
  have "set_listing [''bob'', ''amy''] (late_first [''bob'', ''amy''])"
    by (simp add: set_listing_def late_first_def insert_commute)
  moreover have "set_listing [''bob'', ''amy''] (first_seen [''bob'', ''amy''])"
    by (simp add: set_listing_def first_seen_def)
  moreover have "map_sum id (map item_speaker)
        (dataset_init plain_text_utils late_first default_params two_speakers) = Inr [1, 0]"
    by code_simp
  moreover have "map_sum id (map item_speaker)
        (dataset_init plain_text_utils first_seen default_params two_speakers) = Inr [0, 1]"
    by code_simp
  ultimately show ?thesis by blast
qed

section \<open>The collator\<close>

lemma py_index_Inr: "py_index xs i = Inr x \<longleftrightarrow> i < length xs \<and> x = xs ! i"
  by (auto simp: py_index_def)

lemma exn_bind_Inr: "exn_bind m f = Inr y \<longleftrightarrow> (\<exists>x. m = Inr x \<and> f x = Inr y)"
  by (cases m) (simp_all add: exn_bind_def)

lemma assign_prefix_length:
  "assign_prefix row n src = Inr row' \<Longrightarrow> length row' = length row"
  by (auto simp: assign_prefix_def stretch_def Let_def split: if_splits)

lemma assign_prefix_fits:
  "length u \<le> length row \<Longrightarrow> assign_prefix row (length u) u = Inr (u @ drop (length u) row)"
  by (simp add: assign_prefix_def stretch_def Let_def min_def)

lemma assign_block_shape:
  assumes "assign_block block width n src = Inr block'"
    and "\<forall>row\<in>set block. length row = width"
  shows "length block' = length block \<and> (\<forall>row\<in>set block'. length row = width)"
proof -
  have b: "block' = map (\<lambda>k. stretch (min n width) (src ! (if length src = length block then k else 0))
                              @ drop (min n width) (block ! k)) [0..<length block]"
    using assms(1) by (simp add: assign_block_def Let_def split: if_splits)
  have "length (stretch m s) = m" for m and s :: "'a list"
    by (simp add: stretch_def)
  then show ?thesis using assms(2) by (auto simp: b)
qed

lemma fill_from_length: "length (fill_from row start v) = length row"
  by (simp add: fill_from_def Let_def)

lemma fill_from_zeros:
  assumes "1 \<le> fc"
  shows "fill_from (replicate F z) (int fc - 1) v
           = replicate (min (fc - 1) F) z @ replicate (F - min (fc - 1) F) v"
proof -
  have "nat (max 0 (min (int fc - 1) (int F))) = min (fc - 1) F"
    using assms by linarith
  then show ?thesis using assms by (simp add: fill_from_def Let_def min_def)
qed

lemma collate_fill_step:
  assumes "collate_fill hp batch F i (idx # rest) T = Inr T'"
  shows "\<exists>urow' mblock' lin'.
      idx < length batch \<and> i < length (t_utterances T) \<and> i < length (t_mel_spectrograms T)
      \<and> i < length (t_stop_tokens T) \<and> mel_of (batch ! idx) \<noteq> []
      \<and> assign_prefix (t_utterances T ! i) (length (utterance_of (batch ! idx)))
            (utterance_of (batch ! idx)) = Inr urow'
      \<and> assign_block (t_mel_spectrograms T ! i) F (frame_count (batch ! idx))
            (mel_of (batch ! idx)) = Inr mblock'
      \<and> collate_fill hp batch F (Suc i) rest
           \<lparr>t_utterances = (t_utterances T)[i := urow'],
            t_mel_spectrograms = (t_mel_spectrograms T)[i := mblock'],
            t_lin_spectrograms = lin',
            t_stop_tokens = (t_stop_tokens T)[i := fill_from (t_stop_tokens T ! i)
                 (int (frame_count (batch ! idx)) - 1) 1]\<rparr> = Inr T'"
proof -
  from assms obtain e where e: "py_index batch idx = Inr e"
    by (auto simp: exn_bind_Inr)
  then have idx: "idx < length batch" and e_def: "e = batch ! idx"
    by (simp_all add: py_index_Inr)
  obtain s l u a b where sl: "e = (s, l, u, a, b)" by (cases e) auto
  have u: "utterance_of e = u" and a: "mel_of e = a"
    by (simp_all add: sl utterance_of_def mel_of_def)
  from assms e sl obtain urow urow' a0 mblock mblock' lin' srow where
    st: "py_index (t_utterances T) i = Inr urow"
      "assign_prefix urow (length u) u = Inr urow'"
      "py_index a 0 = Inr a0"
      "py_index (t_mel_spectrograms T) i = Inr mblock"
      "assign_block mblock F (length a0) a = Inr mblock'"
      "py_index (t_stop_tokens T) i = Inr srow"
      "collate_fill hp batch F (Suc i) rest
           \<lparr>t_utterances = (t_utterances T)[i := urow'],
            t_mel_spectrograms = (t_mel_spectrograms T)[i := mblock'],
            t_lin_spectrograms = lin',
            t_stop_tokens = (t_stop_tokens T)[i := fill_from srow (int (length a0) - 1) 1]\<rparr>
         = Inr T'"
    by (auto simp: exn_bind_Inr)
  from st(3) have ane: "a \<noteq> []" and a0: "a0 = hd a"
    by (auto simp: py_index_Inr hd_conv_nth)
  have fc: "frame_count e = length a0" by (simp add: frame_count_def a a0)
  show ?thesis
    using st idx ane fc u a e_def
    by (auto simp: py_index_Inr)
qed


lemma collate_fill_rows:
  assumes "collate_fill hp batch F i idxs T = Inr T'"
  shows "same_lengths T T'
       \<and> (\<forall>r. r < i \<or> i + length idxs \<le> r \<longrightarrow> rows_same T T' r)
       \<and> (\<forall>k<length idxs. idxs ! k < length batch
              \<and> row_filled F T T' (i + k) (batch ! (idxs ! k)))"
  using assms
proof (induction idxs arbitrary: i T)
  case Nil
  then show ?case by (simp add: same_lengths_def rows_same_def)
next
  case (Cons idx rest)
  let ?e = "batch ! idx"
  from collate_fill_step [OF Cons.prems] obtain urow' mblock' lin' where
    st: "idx < length batch" "i < length (t_utterances T)" "i < length (t_mel_spectrograms T)"
      "i < length (t_stop_tokens T)" "mel_of ?e \<noteq> []"
      "assign_prefix (t_utterances T ! i) (length (utterance_of ?e)) (utterance_of ?e) = Inr urow'"
      "assign_block (t_mel_spectrograms T ! i) F (frame_count ?e) (mel_of ?e) = Inr mblock'"
    and run: "collate_fill hp batch F (Suc i) rest
           \<lparr>t_utterances = (t_utterances T)[i := urow'],
            t_mel_spectrograms = (t_mel_spectrograms T)[i := mblock'],
            t_lin_spectrograms = lin',
            t_stop_tokens = (t_stop_tokens T)[i := fill_from (t_stop_tokens T ! i)
                 (int (frame_count ?e) - 1) 1]\<rparr> = Inr T'"
    by blast
  define T1 where "T1 = \<lparr>t_utterances = (t_utterances T)[i := urow'],
            t_mel_spectrograms = (t_mel_spectrograms T)[i := mblock'],
            t_lin_spectrograms = lin',
            t_stop_tokens = (t_stop_tokens T)[i := fill_from (t_stop_tokens T ! i)
                 (int (frame_count ?e) - 1) 1]\<rparr>"
  have run1: "collate_fill hp batch F (Suc i) rest T1 = Inr T'"
    using run by (simp add: T1_def)
  note IH = Cons.IH [OF run1]
  have ih1: "same_lengths T1 T'" using IH by blast
  have ih2: "rows_same T1 T' r" if "r < Suc i \<or> Suc i + length rest \<le> r" for r
    using IH that by blast
  have ih3: "rest ! k < length batch \<and> row_filled F T1 T' (Suc i + k) (batch ! (rest ! k))"
    if "k < length rest" for k
    using IH that by blast
  have len1: "same_lengths T T1" by (simp add: same_lengths_def T1_def)
  have other: "rows_same T T1 r" if "r \<noteq> i" for r
    using that by (simp add: rows_same_def T1_def)
  have at_i: "t_utterances T1 ! i = urow'" "t_mel_spectrograms T1 ! i = mblock'"
    "t_stop_tokens T1 ! i = fill_from (t_stop_tokens T ! i) (int (frame_count ?e) - 1) 1"
    using st by (simp_all add: T1_def)
  have g1: "same_lengths T T'"
    using len1 ih1 by (simp add: same_lengths_def)
  have g2: "rows_same T T' r" if "r < i \<or> i + length (idx # rest) \<le> r" for r
  proof -
    from that have "r \<noteq> i" "r < Suc i \<or> Suc i + length rest \<le> r" by auto
    then show ?thesis using other [of r] ih2 [of r] by (simp add: rows_same_def)
  qed
  have g3: "(idx # rest) ! k < length batch
              \<and> row_filled F T T' (i + k) (batch ! ((idx # rest) ! k))"
    if "k < length (idx # rest)" for k
  proof (cases k)
    case 0
    have "rows_same T1 T' i" using ih2 [of i] by simp
    then show ?thesis using 0 st at_i by (simp add: row_filled_def rows_same_def)
  next
    case (Suc k')
    then have k': "k' < length rest" using that by simp
    have "rows_same T T1 (Suc i + k')" using other [of "Suc i + k'"] by simp
    then show ?thesis using ih3 [OF k'] len1 Suc
      by (simp add: row_filled_def rows_same_def same_lengths_def)
  qed
  from g1 g2 g3 show ?case by blast
qed


lemma collate_lengths_result:
  assumes "collate_lengths batch S L U P mx = Inr r"
  shows "(\<exists>S' L'. r = (S', L', U @ utterance_lengths_of batch, P @ map frame_count batch,
                        Max (set (mx # map frame_count batch))))
         \<and> (\<forall>e\<in>set batch. mel_of e \<noteq> [])"
  using assms
proof (induction batch arbitrary: S L U P mx)
  case Nil
  then show ?case by (auto simp: utterance_lengths_of_def)
next
  case (Cons e rest)
  obtain s l u a b where e: "e = (s, l, u, a, b)" by (cases e) auto
  from Cons.prems e obtain a0 where a0: "py_index a 0 = Inr a0"
    and run: "collate_lengths rest (S @ [s]) (L @ [l]) (U @ [length u]) (P @ [length a0])
                (if length a0 > mx then length a0 else mx) = Inr r"
    by (auto simp: exn_bind_Inr)
  from a0 have ane: "a \<noteq> []" and a0h: "a0 = hd a"
    by (auto simp: py_index_Inr hd_conv_nth)
  have fc: "frame_count e = length a0" by (simp add: frame_count_def mel_of_def e a0h)
  have ut: "length (utterance_of e) = length u" by (simp add: utterance_of_def e)
  have mx: "Max (set ((if length a0 > mx then length a0 else mx) # map frame_count rest))
      = Max (set (mx # map frame_count (e # rest)))"
  proof (cases "rest = []")
    case True
    then show ?thesis by (simp add: fc max_def)
  next
    case False
    then show ?thesis by (simp add: fc max_def)
  qed
  from Cons.IH [OF run] obtain S' L' where
    r: "r = (S', L', (U @ [length u]) @ utterance_lengths_of rest,
             (P @ [length a0]) @ map frame_count rest,
             Max (set ((if length a0 > mx then length a0 else mx) # map frame_count rest)))"
    and m: "\<forall>x\<in>set rest. mel_of x \<noteq> []"
    by blast
  have me: "mel_of e \<noteq> []" using ane by (simp add: mel_of_def e)
  have r': "r = (S', L', U @ utterance_lengths_of (e # rest), P @ map frame_count (e # rest),
             Max (set (mx # map frame_count (e # rest))))"
    unfolding r mx by (simp add: utterance_lengths_of_def ut fc)
  from r' m me show ?case by auto
qed

lemma index_select_map:
  "index_select xs idxs = Inr ys \<Longrightarrow> ys = map (\<lambda>i. xs ! i) idxs"
  unfolding index_select_def
proof (induction idxs arbitrary: ys)
  case Nil
  then show ?case by simp
next
  case (Cons i rest)
  then show ?case by (auto simp: exn_bind_Inr py_index_Inr)
qed

lemma permutation_indices:
  assumes "length idxs = n" and "distinct idxs" and "\<forall>i\<in>set idxs. i < n"
  shows "set idxs = {0..<n}"
proof -
  have "set idxs \<subseteq> {0..<n}" using assms(3) by auto
  moreover have "card (set idxs) = card {0..<n}"
    using assms(1,2) by (simp add: distinct_card)
  ultimately show ?thesis by (simp add: card_subset_eq)
qed


lemma collate_unfold:
  assumes "collate torch_sort hp batch = Inr out"
  shows "\<exists>vals idxs lin T.
      torch_sort (utterance_lengths_of batch) = (vals, idxs) \<and> vals \<noteq> []
      \<and> (\<forall>e\<in>set batch. mel_of e \<noteq> [])
      \<and> out_spectrogram_lengths out = map (\<lambda>i. map frame_count batch ! i) idxs
      \<and> out_utterance_lengths out = vals
      \<and> out_utterances out = t_utterances T
      \<and> out_mel_spectrograms out = t_mel_spectrograms T
      \<and> out_stop_tokens out = t_stop_tokens T
      \<and> collate_fill hp batch (Max (set (0 # map frame_count batch))) 0 idxs
           \<lparr>t_utterances = replicate (length batch) (replicate (vals ! 0) 0),
            t_mel_spectrograms = replicate (length batch)
               (replicate (num_mels hp) (replicate (Max (set (0 # map frame_count batch))) 0)),
            t_lin_spectrograms = lin,
            t_stop_tokens = replicate (length batch)
               (replicate (Max (set (0 # map frame_count batch))) 0)\<rparr> = Inr T"
proof -
  define F where "F = Max (set (0 # map frame_count batch))"
  from assms obtain r where r: "collate_lengths batch [] [] [] [] 0 = Inr r"
    by (auto simp: collate_def exn_bind_Inr)
  from collate_lengths_result [OF r] obtain S' L' where
    r': "r = (S', L', utterance_lengths_of batch, map frame_count batch, F)"
    and mel: "\<forall>e\<in>set batch. mel_of e \<noteq> []"
    unfolding F_def by auto
  obtain vals idxs where ts: "torch_sort (utterance_lengths_of batch) = (vals, idxs)"
    by (cases "torch_sort (utterance_lengths_of batch)") auto
  from assms r r' ts obtain sl longest T where
    sl: "index_select (map frame_count batch) idxs = Inr sl"
    and lo: "py_index vals 0 = Inr longest"
    and fill: "collate_fill hp batch F 0 idxs
           \<lparr>t_utterances = replicate (length batch) (replicate longest 0),
            t_mel_spectrograms = replicate (length batch)
               (replicate (num_mels hp) (replicate F 0)),
            t_lin_spectrograms =
               (if predict_linear hp
                then Some (replicate (length batch)
                       (replicate (num_fft hp div 2 + 1)
                          (replicate F 0)))
                else None),
            t_stop_tokens = replicate (length batch)
               (replicate F 0)\<rparr> = Inr T"
    and out: "out_utterance_lengths out = vals" "out_utterances out = t_utterances T"
      "out_mel_spectrograms out = t_mel_spectrograms T" "out_stop_tokens out = t_stop_tokens T"
      "out_spectrogram_lengths out = sl"
    by (auto simp: collate_def exn_bind_Inr Let_def)
  from lo have ne: "vals \<noteq> []" and l0: "longest = vals ! 0"
    by (auto simp: py_index_Inr)
  from index_select_map [OF sl] have sl': "sl = map (\<lambda>i. map frame_count batch ! i) idxs" .
  from ts ne mel out sl' fill l0 show ?thesis unfolding F_def by blast
qed


lemma collate_rows:
  fixes batch :: "('a::zero_neq_one) example list"
  assumes ret: "collate torch_sort hp batch = Inr out"
    and srt: "sorted_descending (utterance_lengths_of batch)
                (torch_sort (utterance_lengths_of batch))"
  defines "idxs \<equiv> sorted_idxs_of torch_sort batch"
    and "lens \<equiv> utterance_lengths_of batch"
    and "B \<equiv> length batch"
  shows "batch \<noteq> []"
    and "length idxs = B" and "distinct idxs" and "set idxs = {0..<B}"
    and "out_utterance_lengths out = map (\<lambda>i. lens ! i) idxs"
    and "\<forall>i j. i \<le> j \<and> j < B \<longrightarrow> lens ! (idxs ! j) \<le> lens ! (idxs ! i)"
    and "length (out_utterances out) = B"
    and "length (out_mel_spectrograms out) = B"
    and "length (out_stop_tokens out) = B"
    and "\<forall>i<B. out_utterances out ! i
           = utterance_of (batch ! (idxs ! i))
             @ replicate (longest_utterance batch - lens ! (idxs ! i)) 0"
    and "\<forall>i<B. length (out_mel_spectrograms out ! i) = num_mels hp
           \<and> (\<forall>row\<in>set (out_mel_spectrograms out ! i). length row = most_frames batch)"
    and "\<forall>i<B. out_stop_tokens out ! i
           = fill_from (replicate (most_frames batch) 0)
               (int (frame_count (batch ! (idxs ! i))) - 1) 1"
    and "\<forall>i<B. out_spectrogram_lengths out ! i = frame_count (batch ! (idxs ! i))"
    and "\<forall>e\<in>set batch. mel_of e \<noteq> []"
proof -
  define F where "F = Max (set (0 # map frame_count batch))"
  from collate_unfold [OF ret] obtain vals idxs' lin T where
    ts: "torch_sort (utterance_lengths_of batch) = (vals, idxs')" and ne: "vals \<noteq> []"
    and mel: "\<forall>e\<in>set batch. mel_of e \<noteq> []"
    and sl: "out_spectrogram_lengths out = map (\<lambda>i. map frame_count batch ! i) idxs'"
    and ov: "out_utterance_lengths out = vals"
    and ou: "out_utterances out = t_utterances T"
    and om: "out_mel_spectrograms out = t_mel_spectrograms T"
    and os: "out_stop_tokens out = t_stop_tokens T"
    and fill: "collate_fill hp batch F 0 idxs'
           \<lparr>t_utterances = replicate (length batch) (replicate (vals ! 0) 0),
            t_mel_spectrograms = replicate (length batch)
               (replicate (num_mels hp) (replicate F 0)),
            t_lin_spectrograms = lin,
            t_stop_tokens = replicate (length batch) (replicate F 0)\<rparr> = Inr T"
    unfolding F_def by blast
  have idxs: "idxs = idxs'" by (simp add: idxs_def sorted_idxs_of_def ts)
  from srt ts have
    len: "length idxs = B" and dist: "distinct idxs" and rng: "\<forall>i\<in>set idxs. i < B"
    and vals: "vals = map (\<lambda>i. lens ! i) idxs" and desc: "sorted (rev vals)"
    by (auto simp: sorted_descending_def idxs lens_def B_def utterance_lengths_of_def)
  have lenl: "length lens = B" by (simp add: lens_def B_def utterance_lengths_of_def)
  show perm: "set idxs = {0..<B}" by (rule permutation_indices [OF len dist rng])
  from ne vals have "idxs \<noteq> []" by auto
  with len have Bpos: "0 < B" by auto
  then show bne: "batch \<noteq> []" by (auto simp: B_def)
  show "length idxs = B" by (rule len)
  show "distinct idxs" by (rule dist)
  show "out_utterance_lengths out = map (\<lambda>i. lens ! i) idxs" using ov vals by simp
  have mono: "lens ! (idxs ! j) \<le> lens ! (idxs ! i)" if "i \<le> j" "j < B" for i j
  proof -
    have "vals ! j \<le> vals ! i"
      using sorted_rev_nth_mono [OF desc that(1)] that(2) len vals by simp
    then show ?thesis using that len vals by simp
  qed
  then show "\<forall>i j. i \<le> j \<and> j < B \<longrightarrow> lens ! (idxs ! j) \<le> lens ! (idxs ! i)" by blast
  have setv: "set vals = set lens"
  proof -
    have "set vals = (\<lambda>i. lens ! i) ` {0..<B}" using vals perm by simp
    also have "\<dots> = set lens" using lenl by (auto simp: set_conv_nth)
    finally show ?thesis .
  qed
  have W: "vals ! 0 = longest_utterance batch"
  proof -
    have "vals ! 0 \<in> set vals" using ne by simp
    moreover have "x \<le> vals ! 0" if "x \<in> set vals" for x
    proof -
      from that obtain j where j: "j < length vals" "x = vals ! j"
        by (auto simp: in_set_conv_nth)
      then show ?thesis using sorted_rev_nth_mono [OF desc, of 0 j] by simp
    qed
    ultimately have "Max (set vals) = vals ! 0" by (intro Max_eqI) auto
    then show ?thesis by (simp add: longest_utterance_def setv lens_def)
  qed
  have Fm: "F = most_frames batch"
    using bne by (simp add: F_def most_frames_def max_def) 
  let ?T0 = "\<lparr>t_utterances = replicate (length batch) (replicate (vals ! 0) 0),
            t_mel_spectrograms = replicate (length batch)
               (replicate (num_mels hp) (replicate F 0)),
            t_lin_spectrograms = lin,
            t_stop_tokens = replicate (length batch) (replicate F (0::'a))\<rparr>"
  from collate_fill_rows [OF fill] have
    sam: "same_lengths ?T0 T"
    and rows: "\<And>k. k < length idxs' \<Longrightarrow> idxs' ! k < length batch
              \<and> row_filled F ?T0 T (0 + k) (batch ! (idxs' ! k))"
    by blast+
  show "length (out_utterances out) = B" "length (out_mel_spectrograms out) = B"
    "length (out_stop_tokens out) = B"
    using sam by (simp_all add: same_lengths_def ou om os B_def)
  have row: "row_filled F ?T0 T i (batch ! (idxs ! i))" and inb: "idxs ! i < B" if "i < B" for i
    using rows [of i] that len idxs by (simp_all add: B_def)
  show "\<forall>e\<in>set batch. mel_of e \<noteq> []" by (rule mel)
  show "\<forall>i<B. out_spectrogram_lengths out ! i = frame_count (batch ! (idxs ! i))"
  proof (intro allI impI)
    fix i assume i: "i < B"
    then show "out_spectrogram_lengths out ! i = frame_count (batch ! (idxs ! i))"
      using sl idxs len inb [OF i] by (simp add: B_def)
  qed
  show "\<forall>i<B. out_utterances out ! i
           = utterance_of (batch ! (idxs ! i))
             @ replicate (longest_utterance batch - lens ! (idxs ! i)) 0"
  proof (intro allI impI)
    fix i assume i: "i < B"
    let ?u = "utterance_of (batch ! (idxs ! i))"
    have lu: "length ?u = lens ! (idxs ! i)"
      using inb [OF i] by (simp add: lens_def utterance_lengths_of_def B_def)
    have "lens ! (idxs ! i) \<in> set lens" using inb [OF i] lenl by simp
    then have le: "length ?u \<le> vals ! 0"
      using lu W by (simp add: longest_utterance_def lens_def)
    from row [OF i] have
      "assign_prefix (replicate (vals ! 0) 0) (length ?u) ?u = Inr (t_utterances T ! i)"
      using i by (auto simp: row_filled_def B_def)
    moreover have "assign_prefix (replicate (vals ! 0) 0) (length ?u) ?u
        = Inr (?u @ drop (length ?u) (replicate (vals ! 0) 0))"
      using le by (intro assign_prefix_fits) simp
    ultimately show "out_utterances out ! i
           = ?u @ replicate (longest_utterance batch - lens ! (idxs ! i)) 0"
      using lu W by (simp add: ou)
  qed
  show "\<forall>i<B. length (out_mel_spectrograms out ! i) = num_mels hp
           \<and> (\<forall>row\<in>set (out_mel_spectrograms out ! i). length row = most_frames batch)"
  proof (intro allI impI)
    fix i assume i: "i < B"
    let ?e = "batch ! (idxs ! i)"
    from row [OF i] have
      "assign_block (replicate (num_mels hp) (replicate F 0)) F (frame_count ?e) (mel_of ?e)
         = Inr (t_mel_spectrograms T ! i)"
      using i by (auto simp: row_filled_def B_def)
    from assign_block_shape [OF this]
    show "length (out_mel_spectrograms out ! i) = num_mels hp
           \<and> (\<forall>row\<in>set (out_mel_spectrograms out ! i). length row = most_frames batch)"
      by (simp add: om Fm)
  qed
  show "\<forall>i<B. out_stop_tokens out ! i
           = fill_from (replicate (most_frames batch) 0)
               (int (frame_count (batch ! (idxs ! i))) - 1) 1"
  proof (intro allI impI)
    fix i assume i: "i < B"
    from row [OF i] show "out_stop_tokens out ! i
           = fill_from (replicate (most_frames batch) 0)
               (int (frame_count (batch ! (idxs ! i))) - 1) 1"
      using i by (auto simp: row_filled_def B_def os Fm)
  qed
qed


text \<open>
  C1. When the collator returns and \<open>torch.sort\<close> has returned the lengths in descending
  order with their indices, the symbol tensor has one row for each example, each as long
  as the longest utterance, and the mel tensor has one block for each example, of
  \<open>num_mels\<close> rows as long as the largest number of frames. Row \<open>i\<close> holds the utterance of
  the example \<open>sorted_idxs[i]\<close>; the lengths of these utterances descend with \<open>i\<close>, and every
  place of row \<open>i\<close> from the length of its utterance on is zero.
\<close>

theorem collate_sorted_and_padded:
  fixes batch :: "('a::zero_neq_one) example list"
  assumes "collate torch_sort hp batch = Inr out"
    and "sorted_descending (utterance_lengths_of batch)
           (torch_sort (utterance_lengths_of batch))"
  shows "length (out_utterances out) = length batch
     \<and> (\<forall>row\<in>set (out_utterances out). length row = longest_utterance batch)
     \<and> length (out_mel_spectrograms out) = length batch
     \<and> (\<forall>block\<in>set (out_mel_spectrograms out).
           length block = num_mels hp
           \<and> (\<forall>row\<in>set block. length row = most_frames batch))
     \<and> (\<forall>i<length batch. \<forall>j<length batch. i \<le> j \<longrightarrow>
           length (utterance_of (batch ! (sorted_idxs_of torch_sort batch ! j)))
           \<le> length (utterance_of (batch ! (sorted_idxs_of torch_sort batch ! i))))
     \<and> (\<forall>i<length batch.
           out_utterance_lengths out ! i
             = length (utterance_of (batch ! (sorted_idxs_of torch_sort batch ! i)))
           \<and> take (length (utterance_of (batch ! (sorted_idxs_of torch_sort batch ! i))))
                (out_utterances out ! i)
               = utterance_of (batch ! (sorted_idxs_of torch_sort batch ! i))
           \<and> (\<forall>p<longest_utterance batch.
                 length (utterance_of (batch ! (sorted_idxs_of torch_sort batch ! i))) \<le> p
                 \<longrightarrow> out_utterances out ! i ! p = 0))"
proof -
  let ?idxs = "sorted_idxs_of torch_sort batch"
  let ?lens = "utterance_lengths_of batch"
  let ?B = "length batch"
  let ?W = "longest_utterance batch"
  note R = collate_rows [OF assms]
  have inb: "?idxs ! i < ?B" if "i < ?B" for i
    using R(2,4) that by (metis atLeastLessThan_iff nth_mem)
  have lens: "?lens ! (?idxs ! i) = length (utterance_of (batch ! (?idxs ! i)))" if "i < ?B" for i
    using inb [OF that] by (simp add: utterance_lengths_of_def)
  have le: "?lens ! (?idxs ! i) \<le> ?W" if "i < ?B" for i
  proof -
    have "?lens ! (?idxs ! i) \<in> set ?lens"
      using inb [OF that] by (simp add: utterance_lengths_of_def)
    then show ?thesis by (simp add: longest_utterance_def)
  qed
  have row: "out_utterances out ! i
      = utterance_of (batch ! (?idxs ! i)) @ replicate (?W - ?lens ! (?idxs ! i)) 0"
    if "i < ?B" for i
    using R(10) that by blast
  have c1: "length (out_utterances out) = ?B" by (rule R(7))
  have c2: "\<forall>row\<in>set (out_utterances out). length row = ?W"
  proof
    fix r assume "r \<in> set (out_utterances out)"
    then obtain i where i: "i < ?B" "r = out_utterances out ! i"
      using c1 by (auto simp: in_set_conv_nth)
    then show "length r = ?W" using row [OF i(1)] le [OF i(1)] lens [OF i(1)] by simp
  qed
  have c3: "length (out_mel_spectrograms out) = ?B" by (rule R(8))
  have c4: "\<forall>block\<in>set (out_mel_spectrograms out).
           length block = num_mels hp \<and> (\<forall>row\<in>set block. length row = most_frames batch)"
  proof
    fix b assume "b \<in> set (out_mel_spectrograms out)"
    then obtain i where i: "i < ?B" "b = out_mel_spectrograms out ! i"
      using c3 by (auto simp: in_set_conv_nth)
    then show "length b = num_mels hp \<and> (\<forall>row\<in>set b. length row = most_frames batch)"
      using R(11) by blast
  qed
  have c5: "\<forall>i<?B. \<forall>j<?B. i \<le> j \<longrightarrow>
           length (utterance_of (batch ! (?idxs ! j)))
           \<le> length (utterance_of (batch ! (?idxs ! i)))"
  proof (intro allI impI)
    fix i j assume ij: "i < ?B" "j < ?B" "i \<le> j"
    then have "?lens ! (?idxs ! j) \<le> ?lens ! (?idxs ! i)" using R(6) by blast
    then show "length (utterance_of (batch ! (?idxs ! j)))
           \<le> length (utterance_of (batch ! (?idxs ! i)))"
      using lens ij by simp
  qed
  have c6: "\<forall>i<?B.
           out_utterance_lengths out ! i = length (utterance_of (batch ! (?idxs ! i)))
           \<and> take (length (utterance_of (batch ! (?idxs ! i)))) (out_utterances out ! i)
               = utterance_of (batch ! (?idxs ! i))
           \<and> (\<forall>p<?W. length (utterance_of (batch ! (?idxs ! i))) \<le> p
                 \<longrightarrow> out_utterances out ! i ! p = 0)"
  proof (intro allI impI conjI)
    fix i assume i: "i < ?B"
    show "out_utterance_lengths out ! i = length (utterance_of (batch ! (?idxs ! i)))"
      using R(5) R(2) i lens [OF i] by simp
    show "take (length (utterance_of (batch ! (?idxs ! i)))) (out_utterances out ! i)
               = utterance_of (batch ! (?idxs ! i))"
      using row [OF i] by simp
    fix p assume p: "p < ?W" "length (utterance_of (batch ! (?idxs ! i))) \<le> p"
    then show "out_utterances out ! i ! p = 0"
      using row [OF i] lens [OF i] by (simp add: nth_append)
  qed
  from c1 c2 c3 c4 c5 c6 show ?thesis by blast
qed

theorem collate_sorted_and_padded_witness:
  "collate stable_torch_sort collate_params short_long_batch = Inr short_long_collated
   \<and> sorted_descending (utterance_lengths_of short_long_batch)
        (stable_torch_sort (utterance_lengths_of short_long_batch))
   \<and> length (out_utterances short_long_collated) = length short_long_batch
   \<and> length (out_mel_spectrograms short_long_collated) = length short_long_batch
   \<and> out_utterance_lengths short_long_collated ! 1
       = length (utterance_of
                   (short_long_batch ! (sorted_idxs_of stable_torch_sort short_long_batch ! 1)))
   \<and> take (length (utterance_of
                     (short_long_batch ! (sorted_idxs_of stable_torch_sort short_long_batch ! 1))))
         (out_utterances short_long_collated ! 1)
       = utterance_of (short_long_batch ! (sorted_idxs_of stable_torch_sort short_long_batch ! 1))
   \<and> out_utterances short_long_collated = [[21, 22, 23], [11, 12, 0]]"
proof -
  have run: "collate stable_torch_sort collate_params short_long_batch = Inr short_long_collated"
    by code_simp
  have srt: "sorted_descending (utterance_lengths_of short_long_batch)
        (stable_torch_sort (utterance_lengths_of short_long_batch))"
    by code_simp
  have n: "1 < length short_long_batch" by (simp add: short_long_batch_def)
  note t = collate_sorted_and_padded [OF run srt]
  note a = t [THEN conjunct1]
  note c = t [THEN conjunct2, THEN conjunct2, THEN conjunct1]
  note r = t [THEN conjunct2, THEN conjunct2, THEN conjunct2, THEN conjunct2, THEN conjunct2,
      THEN spec, THEN mp, OF n]
  note r1 = r [THEN conjunct1]
  note r2 = r [THEN conjunct2, THEN conjunct1]
  have v: "out_utterances short_long_collated = [[21, 22, 23], [11, 12, 0]]"
    by (simp add: short_long_collated_def)
  show ?thesis
    by (intro conjI) (rule run, rule srt, rule a, rule c, rule r1, rule r2, rule v)
qed

text \<open>
  C4, as the code has it. Every example has a row. For row \<open>i\<close>, filled from the example
  \<open>sorted_idxs[i]\<close>, the frame-length vector holds the number of frames of that example,
  and, when that number is at least 1, the stop target is 0 at every index below it less one
  and 1 from there on.
\<close>

theorem collate_stop_tokens:
  fixes batch :: "('a::zero_neq_one) example list"
  assumes "collate torch_sort hp batch = Inr out"
    and "sorted_descending (utterance_lengths_of batch)
           (torch_sort (utterance_lengths_of batch))"
  shows "(\<forall>k<length batch. \<exists>i<length batch. sorted_idxs_of torch_sort batch ! i = k)
     \<and> (\<forall>i<length batch.
           out_spectrogram_lengths out ! i
             = frame_count (batch ! (sorted_idxs_of torch_sort batch ! i))
           \<and> length (out_stop_tokens out ! i) = most_frames batch
           \<and> (1 \<le> frame_count (batch ! (sorted_idxs_of torch_sort batch ! i)) \<longrightarrow>
                (\<forall>p<most_frames batch.
                   out_stop_tokens out ! i ! p
                   = (if p < frame_count (batch ! (sorted_idxs_of torch_sort batch ! i)) - 1
                      then 0 else 1))))"
proof -
  let ?idxs = "sorted_idxs_of torch_sort batch"
  let ?B = "length batch"
  let ?F = "most_frames batch"
  note R = collate_rows [OF assms]
  have inb: "?idxs ! i < ?B" if "i < ?B" for i
    using R(2,4) that by (metis atLeastLessThan_iff nth_mem)
  have c1: "\<forall>k<?B. \<exists>i<?B. ?idxs ! i = k"
  proof (intro allI impI)
    fix k assume "k < ?B"
    then have "k \<in> set ?idxs" using R(4) by simp
    then show "\<exists>i<?B. ?idxs ! i = k" using R(2) by (auto simp: in_set_conv_nth)
  qed
  have c2: "out_spectrogram_lengths out ! i = frame_count (batch ! (?idxs ! i))
           \<and> length (out_stop_tokens out ! i) = ?F
           \<and> (1 \<le> frame_count (batch ! (?idxs ! i)) \<longrightarrow>
                (\<forall>p<?F. out_stop_tokens out ! i ! p
                   = (if p < frame_count (batch ! (?idxs ! i)) - 1 then 0 else 1)))"
    if i: "i < ?B" for i
  proof -
    let ?fc = "frame_count (batch ! (?idxs ! i))"
    have st: "out_stop_tokens out ! i = fill_from (replicate ?F 0) (int ?fc - 1) 1"
      using R(12) i by blast
    have "?fc \<in> set (map frame_count batch)" using inb [OF i] by simp
    then have le: "?fc \<le> ?F" by (simp add: most_frames_def)
    have a: "out_spectrogram_lengths out ! i = ?fc" using R(13) i by blast
    have b: "length (out_stop_tokens out ! i) = ?F" by (simp add: st fill_from_length)
    have c: "out_stop_tokens out ! i ! p = (if p < ?fc - 1 then 0 else 1)"
      if "1 \<le> ?fc" "p < ?F" for p
    proof -
      have m: "min (?fc - 1) ?F = ?fc - 1" using le by simp
      show ?thesis
        using that by (simp add: st fill_from_zeros [OF that(1)] m nth_append)
    qed
    from a b c show ?thesis by blast
  qed
  from c1 c2 show ?thesis by blast
qed

theorem collate_stop_tokens_witness:
  "collate stable_torch_sort collate_params short_long_batch = Inr short_long_collated
   \<and> sorted_descending (utterance_lengths_of short_long_batch)
        (stable_torch_sort (utterance_lengths_of short_long_batch))
   \<and> 1 \<le> frame_count (short_long_batch ! (sorted_idxs_of stable_torch_sort short_long_batch ! 0))
   \<and> 3 < most_frames short_long_batch
   \<and> out_stop_tokens short_long_collated ! 0 ! 3
       = (if 3 < frame_count (short_long_batch
                    ! (sorted_idxs_of stable_torch_sort short_long_batch ! 0)) - 1
          then 0 else 1)
   \<and> out_stop_tokens short_long_collated = [[0, 1, 1, 1], [0, 0, 0, 1]]"
proof -
  have run: "collate stable_torch_sort collate_params short_long_batch = Inr short_long_collated"
    by code_simp
  have srt: "sorted_descending (utterance_lengths_of short_long_batch)
        (stable_torch_sort (utterance_lengths_of short_long_batch))"
    by code_simp
  have fc: "1 \<le> frame_count (short_long_batch
      ! (sorted_idxs_of stable_torch_sort short_long_batch ! 0))"
    by code_simp
  have n: "0 < length short_long_batch" by (simp add: short_long_batch_def)
  have m: "3 < most_frames short_long_batch"
    by (simp add: most_frames_def short_long_batch_def frame_count_def mel_of_def)
  note t = collate_stop_tokens [OF run srt]
  note r = t [THEN conjunct2, THEN spec, THEN mp, OF n]
  note s = r [THEN conjunct2, THEN conjunct2, THEN mp, OF fc, THEN spec, THEN mp, OF m]
  have v: "out_stop_tokens short_long_collated = [[0, 1, 1, 1], [0, 0, 0, 1]]"
    by (simp add: short_long_collated_def)
  show ?thesis
    by (intro conjI) (rule run, rule srt, rule fc, rule m, rule s, rule v)
qed

text \<open>
  C4 as stated fails. In \<open>empty_frames_batch\<close> the second example has a spectrogram without
  frames; it goes to row 1. Every index is at least its frame count less one, so the claim
  wants 1 at index 0 of that row; the slice \<open>[-1:]\<close> that the code assigns is the last place
  of the row only, and index 0 holds 0.
\<close>

theorem collate_stop_tokens_counterexample:
  "sorted_descending (utterance_lengths_of empty_frames_batch)
     (stable_torch_sort (utterance_lengths_of empty_frames_batch))
   \<and> collate stable_torch_sort collate_params empty_frames_batch = Inr empty_frames_collated
   \<and> sorted_idxs_of stable_torch_sort empty_frames_batch ! 1 = 1
   \<and> frame_count (empty_frames_batch ! 1) = 0
   \<and> int (frame_count (empty_frames_batch ! 1)) - 1 \<le> 0
   \<and> out_stop_tokens empty_frames_collated ! 1 ! 0 = 0"
  by (intro conjI; code_simp)








section \<open>The argument of \<open>Tacotron.inference\<close>\<close>

text \<open>
  C10. After a call of \<open>inference\<close>, whether it returned or raised, the tensor object the
  caller passed as \<open>text\<close> has a new first dimension of size 1: a one-dimensional tensor
  of length \<open>n\<close> has the shape \<open>[1, n]\<close> and its entries as before. No other object of the
  store changes.
\<close>

theorem inference_unsqueezes_argument:
  "fst (tacotron_inference M hp h text_ref speaker language) text_ref
     = (h text_ref)\<lparr>shape := 1 # shape (h text_ref)\<rparr>
   \<and> (shape (h text_ref) = [n] \<longrightarrow>
        shape (fst (tacotron_inference M hp h text_ref speaker language) text_ref) = [1, n]
        \<and> entries (fst (tacotron_inference M hp h text_ref speaker language) text_ref)
            = entries (h text_ref))
   \<and> (\<forall>r. r \<noteq> text_ref \<longrightarrow>
         fst (tacotron_inference M hp h text_ref speaker language) r = h r)"
  by (simp add: tacotron_inference_def unsqueeze_inplace_def Let_def)

theorem inference_unsqueezes_argument_witness:
  "shape (caller_store 0) = [3]
   \<and> shape (fst (tacotron_inference example_tacotron default_params caller_store 0 None None) 0)
       = [1, 3]
   \<and> entries (fst (tacotron_inference example_tacotron default_params caller_store 0 None None) 0)
       = [5, 6, 7]
   \<and> snd (tacotron_inference example_tacotron default_params caller_store 0 None None) = Inr 28
   \<and> shape (fst (tacotron_inference example_tacotron default_params caller_store 1 None None) 1)
       = [1, 2]
   \<and> snd (tacotron_inference example_tacotron default_params caller_store 1 None None)
       = Inl IndexError"
proof -
  have s: "shape (caller_store 0) = [3]" "entries (caller_store 0) = [5, 6, 7]"
    "shape (caller_store 1) = [2]"
    by (simp_all add: caller_store_def)
  note t = inference_unsqueezes_argument [of example_tacotron default_params caller_store 0
      None None 3]
  note a = t [THEN conjunct2, THEN conjunct1, THEN mp, OF s(1)]
  note u = inference_unsqueezes_argument [of example_tacotron default_params caller_store 1
      None None 2]
  note b = u [THEN conjunct2, THEN conjunct1, THEN mp, OF s(3)]
  have r0: "snd (tacotron_inference example_tacotron default_params caller_store 0 None None)
      = Inr 28"
    by code_simp
  have r1: "snd (tacotron_inference example_tacotron default_params caller_store 1 None None)
      = Inl IndexError"
    by code_simp
  from s a b r0 r1 show ?thesis by simp
qed

end
